theory Spec2Isabelle
  imports Complex_Main
begin

section \<open>JavaScript values\<close>

text \<open>
  The values that \<^verbatim>\<open>JSON.parse\<close> can return. A number carries the exact value of the
  double. \<^verbatim>\<open>undefined\<close> is not a JSON value: a property read that finds nothing is
  \<open>None\<close> of type \<open>jsval option\<close>.
\<close>

datatype jsval =
    JNull
  | JBool bool
  | JNum rat
  | JStr string
  | JArr "jsval list"
  | JObj "(string \<times> jsval) list"

text \<open>
  What the code can raise: the engine's SyntaxError (from \<^verbatim>\<open>JSON.parse\<close>), TypeError and
  RangeError (call stack exhausted), and the rejection of a reload collaborator's promise.
\<close>

datatype error = SyntaxError | TypeError | RangeError | ReloadFailed

text \<open>ToBoolean: \<^verbatim>\<open>null\<close>, \<^verbatim>\<open>false\<close>, \<^verbatim>\<open>0\<close> and \<^verbatim>\<open>""\<close> are falsy, every array and object is truthy.\<close>

fun truthy :: "jsval \<Rightarrow> bool" where
  "truthy JNull = False"
| "truthy (JBool b) = b"
| "truthy (JNum r) = (r \<noteq> 0)"
| "truthy (JStr s) = (s \<noteq> [])"
| "truthy (JArr xs) = True"
| "truthy (JObj kvs) = True"

text \<open>
  \<^verbatim>\<open>v.name\<close> for one of the data properties the managers read (\<^verbatim>\<open>strength\<close>,
  \<^verbatim>\<open>baseModel\<close>, \<^verbatim>\<open>tags\<close>): a TypeError on \<^verbatim>\<open>null\<close>, the own property of an object,
  and \<^verbatim>\<open>undefined\<close> on every other value.
\<close>

fun get_prop :: "jsval \<Rightarrow> string \<Rightarrow> error + jsval option" where
  "get_prop JNull k = Inl TypeError"
| "get_prop (JObj kvs) k = Inr (map_of kvs k)"
| "get_prop v k = Inr None"

text \<open>\<^verbatim>\<open>a || b\<close> where \<open>a\<close> may be \<^verbatim>\<open>undefined\<close>.\<close>

fun or_else :: "jsval option \<Rightarrow> jsval \<Rightarrow> jsval" where
  "or_else None d = d"
| "or_else (Some v) d = (if truthy v then v else d)"

section \<open>BulkManager\<close>

subsection \<open>The page state and the document\<close>

text \<open>
  A rendered \<^verbatim>\<open>.lora-card\<close> element: its data attributes, its preview children and whether
  its class list holds \<^verbatim>\<open>selected\<close>.
\<close>

record card =
  filepath :: string
  file_name :: string
  usage_tips :: "string option"
  name :: string
  img_src :: "string option"
  video_source_src :: "string option"
  has_video :: bool
  selected :: bool

record metadata =
  fileName :: string
  usageTips :: "string option"
  previewUrl :: string
  isVideo :: bool
  modelName :: string

text \<open>
  The \<^verbatim>\<open>#selectedCount\<close> element: the number in its text, and its caret icon.
\<close>

record count_element =
  shown_count :: nat
  caret_down :: bool
  caret_visible :: bool

text \<open>
  The \<^verbatim>\<open>.selected-thumbnails-strip\<close> element while it is in the document: whether it
  has the class \<^verbatim>\<open>visible\<close>, the file paths of its thumbnails, and the number of pending
  300 ms timers that will remove it.
\<close>

record strip_element =
  visible_class :: bool
  thumbnails :: "string list"
  removal_timers :: nat

datatype severity = Warning | Error | Success | Info

text \<open>
  The messages of \<^verbatim>\<open>showToast\<close>:
  \<^verbatim>\<open>No LoRAs selected\<close>, \<^verbatim>\<open>Missing data for n LoRAs\<close>, \<^verbatim>\<open>No valid LoRAs to copy\<close>,
  \<^verbatim>\<open>Copied n LoRA syntaxes to clipboard\<close>, \<^verbatim>\<open>Copy failed\<close>.
\<close>

datatype message =
    NoLorasSelected
  | MissingDataFor nat
  | NoValidLoras
  | CopiedSyntaxes nat
  | CopyFailed

text \<open>
  \<^verbatim>\<open>state.selectedLoras\<close> is a \<^verbatim>\<open>Set\<close>: a list without duplicates in insertion order,
  which is the order \<^verbatim>\<open>for ... of\<close> visits. \<^verbatim>\<open>state.loraMetadataCache\<close> is a \<^verbatim>\<open>Map\<close>.
  \<open>clipboard\<close> lists the texts written by \<^verbatim>\<open>navigator.clipboard.writeText\<close>, \<open>toasts\<close>
  the notifications shown, both oldest first.
\<close>

record bulk_state =
  selectedLoras :: "string list"
  loraMetadataCache :: "string \<rightharpoonup> metadata"
  bulkMode :: bool
  cards :: "card list"
  selectedCount :: "count_element option"
  strip :: "strip_element option"
  isStripVisible :: bool
  toasts :: "(message \<times> severity) list"
  clipboard :: "string list"

definition set_add :: "string \<Rightarrow> string list \<Rightarrow> string list" where
  "set_add k ks = (if k \<in> set ks then ks else ks @ [k])"

definition set_delete :: "string \<Rightarrow> string list \<Rightarrow> string list" where
  "set_delete k ks = removeAll k ks"

text \<open>
  The methods below call each other without bound when the strip is in the document and
  nothing is selected, so every call takes the number of frames left on the call stack.
  A call with none left raises the engine's RangeError. An outcome carries the state at
  the return or at the moment of the exception.
\<close>

datatype 'a outcome = Returned 'a | Raised error 'a

fun state_of :: "'a outcome \<Rightarrow> 'a" where
  "state_of (Returned s) = s"
| "state_of (Raised e s) = s"

fun returned :: "'a outcome \<Rightarrow> bool" where
  "returned (Returned s) = True"
| "returned (Raised e s) = False"

subsection \<open>The methods\<close>

fun updateSelectedCount :: "nat \<Rightarrow> bulk_state \<Rightarrow> bulk_state outcome"
and hideThumbnailStrip :: "nat \<Rightarrow> bulk_state \<Rightarrow> bulk_state outcome" where
  "updateSelectedCount 0 s = Raised RangeError s"
| "updateSelectedCount (Suc n) s =
     (case selectedCount s of
        None \<Rightarrow> Returned s
      | Some c \<Rightarrow>
          (let s1 = s\<lparr>selectedCount := Some \<lparr>shown_count = length (selectedLoras s),
                         caret_down = isStripVisible s,
                         caret_visible = (length (selectedLoras s) > 0)\<rparr>\<rparr>
           in if length (selectedLoras s1) = 0 then hideThumbnailStrip n s1 else Returned s1))"
| "hideThumbnailStrip 0 s = Raised RangeError s"
| "hideThumbnailStrip (Suc n) s =
     (case strip s of
        None \<Rightarrow> Returned s
      | Some st \<Rightarrow>
          (let s1 = s\<lparr>strip := Some (st\<lparr>visible_class := False\<rparr>), isStripVisible := False\<rparr>
           in case updateSelectedCount n s1 of
                Raised e s2 \<Rightarrow> Raised e s2
              | Returned s2 \<Rightarrow>
                  Returned (s2\<lparr>strip := map_option
                     (\<lambda>e. e\<lparr>removal_timers := Suc (removal_timers e)\<rparr>) (strip s2)\<rparr>)))"

text \<open>
  The callback of a 300 ms timer set by \<^verbatim>\<open>hideThumbnailStrip\<close>: the strip it was set for
  leaves the document.
\<close>

definition strip_timer_fires :: "bulk_state \<Rightarrow> bulk_state" where
  "strip_timer_fires s =
     (case strip s of
        None \<Rightarrow> s
      | Some e \<Rightarrow> if removal_timers e > 0 then s\<lparr>strip := None\<rparr> else s)"

definition getCardPreviewUrl :: "card \<Rightarrow> string" where
  "getCardPreviewUrl c =
     (case img_src c of
        Some u \<Rightarrow> u
      | None \<Rightarrow> (case video_source_src c of
                   Some u \<Rightarrow> u
                 | None \<Rightarrow> ''/loras_static/images/no-preview.png''))"

definition isCardPreviewVideo :: "card \<Rightarrow> bool" where
  "isCardPreviewVideo c = has_video c"

definition card_metadata :: "card \<Rightarrow> metadata" where
  "card_metadata c =
     \<lparr>fileName = file_name c, usageTips = usage_tips c, previewUrl = getCardPreviewUrl c,
      isVideo = isCardPreviewVideo c, modelName = name c\<rparr>"

text \<open>
  \<^verbatim>\<open>updateThumbnailStrip\<close>: one thumbnail for each selected path that has a cache entry;
  nothing without a \<^verbatim>\<open>.thumbnails-container\<close>, which lives inside the strip.
\<close>

definition updateThumbnailStrip :: "bulk_state \<Rightarrow> bulk_state" where
  "updateThumbnailStrip s =
     (case strip s of
        None \<Rightarrow> s
      | Some st \<Rightarrow>
          s\<lparr>strip := Some (st\<lparr>thumbnails :=
               filter (\<lambda>k. loraMetadataCache s k \<noteq> None) (selectedLoras s)\<rparr>)\<rparr>)"

text \<open>
  \<^verbatim>\<open>toggleCardSelection(card)\<close>; the card is the \<open>i\<close>-th rendered card, and an index
  past the last card stands for no card. The branch is taken on the card's class, not on
  the set.
\<close>

definition toggleCardSelection :: "nat \<Rightarrow> nat \<Rightarrow> bulk_state \<Rightarrow> bulk_state outcome" where
  "toggleCardSelection n i s =
     (if i < length (cards s) then
        (let c = cards s ! i;
             s1 = (if selected c then
                     s\<lparr>cards := (cards s)[i := c\<lparr>selected := False\<rparr>],
                       selectedLoras := set_delete (filepath c) (selectedLoras s)\<rparr>
                   else
                     s\<lparr>cards := (cards s)[i := c\<lparr>selected := True\<rparr>],
                       selectedLoras := set_add (filepath c) (selectedLoras s),
                       loraMetadataCache := (loraMetadataCache s)(filepath c \<mapsto> card_metadata c)\<rparr>)
         in case updateSelectedCount n s1 of
              Raised e s2 \<Rightarrow> Raised e s2
            | Returned s2 \<Rightarrow>
                Returned (if isStripVisible s2 then updateThumbnailStrip s2 else s2))
      else Returned s)"

text \<open>\<^verbatim>\<open>clearSelection()\<close>.\<close>

definition clearSelection :: "nat \<Rightarrow> bulk_state \<Rightarrow> bulk_state outcome" where
  "clearSelection n s =
     (let s1 = s\<lparr>cards := map (\<lambda>c. if selected c then c\<lparr>selected := False\<rparr> else c) (cards s),
                  selectedLoras := []\<rparr>
      in case updateSelectedCount n s1 of
           Raised e s2 \<Rightarrow> Raised e s2
         | Returned s2 \<Rightarrow> hideThumbnailStrip n s2)"

text \<open>
  \<^verbatim>\<open>showThumbnailStrip()\<close> puts a new strip into the document, fills it and refreshes the
  caret. Its only caller is \<^verbatim>\<open>toggleThumbnailStrip\<close>, when no strip is in the document,
  so the document holds one strip at most. The class \<^verbatim>\<open>visible\<close> arrives with a 10 ms timer.
\<close>

definition showThumbnailStrip :: "nat \<Rightarrow> bulk_state \<Rightarrow> bulk_state outcome" where
  "showThumbnailStrip n s =
     (let s1 = s\<lparr>strip := Some \<lparr>visible_class = False, thumbnails = [], removal_timers = 0\<rparr>\<rparr>;
          s2 = updateThumbnailStrip s1;
          s3 = s2\<lparr>isStripVisible := True\<rparr>
      in updateSelectedCount n s3)"

definition strip_show_timer_fires :: "bulk_state \<Rightarrow> bulk_state" where
  "strip_show_timer_fires s = s\<lparr>strip := map_option (\<lambda>e. e\<lparr>visible_class := True\<rparr>) (strip s)\<rparr>"

definition toggleThumbnailStrip :: "nat \<Rightarrow> bulk_state \<Rightarrow> bulk_state outcome" where
  "toggleThumbnailStrip n s =
     (if length (selectedLoras s) = 0 then Returned s
      else (case strip s of
              Some e \<Rightarrow> hideThumbnailStrip n s
            | None \<Rightarrow> showThumbnailStrip n s))"

subsection \<open>Copying the selection as text\<close>

text \<open>\<^verbatim>\<open>Array.prototype.join\<close> on strings.\<close>

fun join :: "string \<Rightarrow> string list \<Rightarrow> string" where
  "join sep [] = []"
| "join sep [x] = x"
| "join sep (x # y # ys) = x @ sep @ join sep (y # ys)"

text \<open>
  The string a template literal makes of a value. \<open>num_str\<close> is the engine's
  \<^verbatim>\<open>Number.prototype.toString\<close>, a parameter of the model.
\<close>

fun toStr :: "(rat \<Rightarrow> string) \<Rightarrow> jsval \<Rightarrow> string" where
  "toStr num_str JNull = ''null''"
| "toStr num_str (JBool b) = (if b then ''true'' else ''false'')"
| "toStr num_str (JNum r) = num_str r"
| "toStr num_str (JStr s) = s"
| "toStr num_str (JArr xs) = join '','' (map (\<lambda>x. if x = JNull then [] else toStr num_str x) xs)"
| "toStr num_str (JObj kvs) = ''[object Object]''"

text \<open>
  The body of the loop for a key that has metadata. \<open>parse\<close> is the engine's
  \<^verbatim>\<open>JSON.parse\<close>, a parameter of the model: \<open>Inl SyntaxError\<close> where it throws. The
  call is not inside a \<^verbatim>\<open>try\<close>, so its exception leaves \<^verbatim>\<open>copyAllLorasSyntax\<close>.
\<close>

definition lora_syntax ::
  "(string \<Rightarrow> error + jsval) \<Rightarrow> (rat \<Rightarrow> string) \<Rightarrow> metadata \<Rightarrow> error + string" where
  "lora_syntax parse num_str m =
     (case parse (case usageTips m of None \<Rightarrow> ''{}'' | Some u \<Rightarrow> if u = [] then ''{}'' else u) of
        Inl e \<Rightarrow> Inl e
      | Inr tips \<Rightarrow>
          (case get_prop tips ''strength'' of
             Inl e \<Rightarrow> Inl e
           | Inr p \<Rightarrow>
               Inr (''<lora:'' @ fileName m @ '':'' @ toStr num_str (or_else p (JNum 1)) @ ''>'')))"

text \<open>
  The \<^verbatim>\<open>for (const filepath of state.selectedLoras)\<close> loop, with the two arrays it
  pushes to.
\<close>

fun collect_syntaxes ::
  "(string \<Rightarrow> error + jsval) \<Rightarrow> (rat \<Rightarrow> string) \<Rightarrow> (string \<rightharpoonup> metadata) \<Rightarrow>
   string list \<Rightarrow> string list \<Rightarrow> string list \<Rightarrow> error + (string list \<times> string list)" where
  "collect_syntaxes parse num_str cache [] loraSyntaxes missingLoras =
     Inr (loraSyntaxes, missingLoras)"
| "collect_syntaxes parse num_str cache (k # ks) loraSyntaxes missingLoras =
     (case cache k of
        Some m \<Rightarrow>
          (case lora_syntax parse num_str m of
             Inl e \<Rightarrow> Inl e
           | Inr t \<Rightarrow> collect_syntaxes parse num_str cache ks (loraSyntaxes @ [t]) missingLoras)
      | None \<Rightarrow> collect_syntaxes parse num_str cache ks loraSyntaxes (missingLoras @ [k]))"

definition showToast :: "message \<Rightarrow> severity \<Rightarrow> bulk_state \<Rightarrow> bulk_state" where
  "showToast m sev s = s\<lparr>toasts := toasts s @ [(m, sev)]\<rparr>"

text \<open>
  \<^verbatim>\<open>copyAllLorasSyntax()\<close>. \<open>clipboard_ok\<close> says whether \<^verbatim>\<open>writeText\<close> succeeds; its
  failure is caught. \<open>Inl\<close> is an exception that leaves the method.
\<close>

definition copyAllLorasSyntax ::
  "(string \<Rightarrow> error + jsval) \<Rightarrow> (rat \<Rightarrow> string) \<Rightarrow> bool \<Rightarrow> bulk_state \<Rightarrow> error + bulk_state" where
  "copyAllLorasSyntax parse num_str clipboard_ok s =
     (if length (selectedLoras s) = 0 then Inr (showToast NoLorasSelected Warning s)
      else
        (case collect_syntaxes parse num_str (loraMetadataCache s) (selectedLoras s) [] [] of
           Inl e \<Rightarrow> Inl e
         | Inr (loraSyntaxes, missingLoras) \<Rightarrow>
             (let s1 = (if length missingLoras > 0
                        then showToast (MissingDataFor (length missingLoras)) Warning s else s)
              in if length loraSyntaxes = 0 then Inr (showToast NoValidLoras Error s1)
                 else if clipboard_ok then
                   Inr (showToast (CopiedSyntaxes (length loraSyntaxes)) Success
                          (s1\<lparr>clipboard := clipboard s1 @ [join '', '' loraSyntaxes]\<rparr>))
                 else Inr (showToast CopyFailed Error s1))))"

text \<open>
  A sequence of clicks on rendered cards in selection mode: each click calls
  \<^verbatim>\<open>toggleCardSelection\<close> on the state the previous call left, whether that call returned
  or raised.
\<close>

fun toggle_all :: "nat \<Rightarrow> nat list \<Rightarrow> bulk_state \<Rightarrow> bulk_state" where
  "toggle_all n [] s = s"
| "toggle_all n (i # is) s = toggle_all n is (state_of (toggleCardSelection n i s))"

text \<open>Every rendered card carries the marker exactly when its path is in the set.\<close>

definition markers_agree :: "bulk_state \<Rightarrow> bool" where
  "markers_agree s = (\<forall>c \<in> set (cards s). selected c = (filepath c \<in> set (selectedLoras s)))"

subsection \<open>Example pages\<close>

definition example_card :: "string \<Rightarrow> bool \<Rightarrow> card" where
  \<open>example_card p sel =
     \<lparr>filepath = p, file_name = ''foo'', usage_tips = Some ''{"strength":0.8}'', name = ''Foo'',
      img_src = Some ''/previews/foo.png'', video_source_src = None, has_video = False,
      selected = sel\<rparr>\<close>

text \<open>A page in selection mode with nothing selected, the counter present, no strip.\<close>

definition example_page :: "card list \<Rightarrow> bulk_state" where
  "example_page cs =
     \<lparr>selectedLoras = [], loraMetadataCache = Map.empty, bulkMode = True, cards = cs,
      selectedCount = Some \<lparr>shown_count = 0, caret_down = False, caret_visible = False\<rparr>,
      strip = None, isStripVisible = False, toasts = [], clipboard = []\<rparr>"

text \<open>
  \<^verbatim>\<open>JSON.parse\<close> and \<^verbatim>\<open>Number.prototype.toString\<close> on the few strings and numbers of the
  examples; \<^verbatim>\<open>JSON.parse\<close> throws on \<^verbatim>\<open>not json\<close>. The examples give them no other
  argument.
\<close>

definition example_parse :: "string \<Rightarrow> error + jsval" where
  \<open>example_parse t =
     (if t = ''{}'' then Inr (JObj [])
      else if t = ''{"strength":0.8}'' then Inr (JObj [(''strength'', JNum (4/5))])
      else if t = ''{"strength":0}'' then Inr (JObj [(''strength'', JNum 0)])
      else if t = ''{"baseModel":[],"tags":["sci-fi"]}''
        then Inr (JObj [(''baseModel'', JArr []), (''tags'', JArr [JStr ''sci-fi''])])
      else if t = ''{"baseModel":"SDXL","tags":["a","a"]}''
        then Inr (JObj [(''baseModel'', JStr ''SDXL''), (''tags'', JArr [JStr ''a'', JStr ''a''])])
      else Inl SyntaxError)\<close>

definition example_num_str :: "rat \<Rightarrow> string" where
  "example_num_str r = (if r = 1 then ''1'' else if r = 4/5 then ''0.8'' else ''?'')"

definition example_metadata :: "string option \<Rightarrow> metadata" where
  "example_metadata tips =
     \<lparr>fileName = ''foo'', usageTips = tips, previewUrl = ''/previews/foo.png'',
      isVideo = False, modelName = ''Foo''\<rparr>"

text \<open>A page with the given selection and metadata cache, and no rendered card.\<close>

definition example_selection :: "string list \<Rightarrow> (string \<rightharpoonup> metadata) \<Rightarrow> bulk_state" where
  "example_selection ks cache = (example_page [])\<lparr>selectedLoras := ks, loraMetadataCache := cache\<rparr>"

section \<open>The filter managers\<close>

subsection \<open>Array and string methods on values\<close>

text \<open>
  \<^verbatim>\<open>this.filters.tags\<close> and \<^verbatim>\<open>this.filters.baseModel\<close> hold whatever
  \<^verbatim>\<open>loadFiltersFromStorage\<close> found truthy in storage, so the methods called on them are
  modelled on every value: \<^verbatim>\<open>includes\<close> exists on arrays (strict equality with an
  element) and on strings (substring), \<^verbatim>\<open>push\<close> and \<^verbatim>\<open>filter\<close> on arrays only;
  calling a method that does not exist is a TypeError.
\<close>

fun is_substring :: "string \<Rightarrow> string \<Rightarrow> bool" where
  "is_substring t [] = (t = [])"
| "is_substring t (c # cs) = (take (length t) (c # cs) = t \<or> is_substring t cs)"

fun js_includes :: "jsval \<Rightarrow> string \<Rightarrow> error + bool" where
  "js_includes (JArr xs) t = Inr (JStr t \<in> set xs)"
| "js_includes (JStr s) t = Inr (is_substring t s)"
| "js_includes v t = Inl TypeError"

fun js_push :: "jsval \<Rightarrow> string \<Rightarrow> error + jsval" where
  "js_push (JArr xs) t = Inr (JArr (xs @ [JStr t]))"
| "js_push v t = Inl TypeError"

text \<open>\<^verbatim>\<open>v.filter(t => t !== tagName)\<close>.\<close>

fun js_filter_out :: "jsval \<Rightarrow> string \<Rightarrow> error + jsval" where
  "js_filter_out (JArr xs) t = Inr (JArr (filter (\<lambda>x. x \<noteq> JStr t) xs))"
| "js_filter_out v t = Inl TypeError"

text \<open>
  \<^verbatim>\<open>v.length\<close>: a TypeError on \<^verbatim>\<open>null\<close>, the number of elements of an array and
  of code units of a string, the own property of an object, and \<^verbatim>\<open>undefined\<close> on a
  number or a boolean.
\<close>

fun js_length :: "jsval \<Rightarrow> error + jsval option" where
  "js_length JNull = Inl TypeError"
| "js_length (JArr xs) = Inr (Some (JNum (of_nat (length xs))))"
| "js_length (JStr s) = Inr (Some (JNum (of_nat (length s))))"
| "js_length (JObj kvs) = Inr (map_of kvs ''length'')"
| "js_length v = Inr None"

subsection \<open>Addition and comparison with zero\<close>

text \<open>
  The lengths are added and compared with 0, and the length of an object can be any
  value, so both operators are modelled on every value. A number at run time may also
  be an infinity or NaN.
\<close>

datatype jsnumber = Fin rat | PosInf | NegInf | NaN

datatype prim = PUndefined | PNull | PBool bool | PNumber jsnumber | PString string

text \<open>
  ToPrimitive: an array becomes the string of its \<^verbatim>\<open>join\<close>, an object the string of
  \<^verbatim>\<open>Object.prototype.toString\<close>, as in \<open>toStr\<close>.
\<close>

fun to_primitive :: "(rat \<Rightarrow> string) \<Rightarrow> jsval option \<Rightarrow> prim" where
  "to_primitive num_str None = PUndefined"
| "to_primitive num_str (Some JNull) = PNull"
| "to_primitive num_str (Some (JBool b)) = PBool b"
| "to_primitive num_str (Some (JNum r)) = PNumber (Fin r)"
| "to_primitive num_str (Some (JStr s)) = PString s"
| "to_primitive num_str (Some (JArr xs)) = PString (toStr num_str (JArr xs))"
| "to_primitive num_str (Some (JObj kvs)) = PString (toStr num_str (JObj kvs))"

text \<open>
  ToNumber; \<open>str_num\<close> is the engine's conversion of a string to a number, a parameter
  of the model.
\<close>

fun to_number :: "(string \<Rightarrow> jsnumber) \<Rightarrow> prim \<Rightarrow> jsnumber" where
  "to_number str_num PUndefined = NaN"
| "to_number str_num PNull = Fin 0"
| "to_number str_num (PBool b) = Fin (if b then 1 else 0)"
| "to_number str_num (PNumber n) = n"
| "to_number str_num (PString s) = str_num s"

fun number_to_string :: "(rat \<Rightarrow> string) \<Rightarrow> jsnumber \<Rightarrow> string" where
  "number_to_string num_str (Fin r) = num_str r"
| "number_to_string num_str PosInf = ''Infinity''"
| "number_to_string num_str NegInf = ''-Infinity''"
| "number_to_string num_str NaN = ''NaN''"

fun prim_to_string :: "(rat \<Rightarrow> string) \<Rightarrow> prim \<Rightarrow> string" where
  "prim_to_string num_str PUndefined = ''undefined''"
| "prim_to_string num_str PNull = ''null''"
| "prim_to_string num_str (PBool b) = (if b then ''true'' else ''false'')"
| "prim_to_string num_str (PNumber n) = number_to_string num_str n"
| "prim_to_string num_str (PString s) = s"

fun number_add :: "jsnumber \<Rightarrow> jsnumber \<Rightarrow> jsnumber" where
  "number_add (Fin a) (Fin b) = Fin (a + b)"
| "number_add NaN y = NaN"
| "number_add x NaN = NaN"
| "number_add PosInf NegInf = NaN"
| "number_add NegInf PosInf = NaN"
| "number_add PosInf y = PosInf"
| "number_add x PosInf = PosInf"
| "number_add NegInf y = NegInf"
| "number_add x NegInf = NegInf"

text \<open>
  \<^verbatim>\<open>a + b\<close>: concatenation when either primitive is a string, the sum of the two
  numbers otherwise.
\<close>

definition js_plus ::
  "(rat \<Rightarrow> string) \<Rightarrow> (string \<Rightarrow> jsnumber) \<Rightarrow> jsval option \<Rightarrow> jsval option \<Rightarrow> prim" where
  "js_plus num_str str_num a b =
     (let pa = to_primitive num_str a; pb = to_primitive num_str b
      in case (pa, pb) of
           (PString x, _) \<Rightarrow> PString (x @ prim_to_string num_str pb)
         | (_, PString y) \<Rightarrow> PString (prim_to_string num_str pa @ y)
         | _ \<Rightarrow> PNumber (number_add (to_number str_num pa) (to_number str_num pb)))"

text \<open>\<^verbatim>\<open>p > 0\<close>: the number of \<open>p\<close> is compared, and NaN is not greater than 0.\<close>

definition greater_than_zero :: "(string \<Rightarrow> jsnumber) \<Rightarrow> prim \<Rightarrow> bool" where
  "greater_than_zero str_num p =
     (case to_number str_num p of Fin r \<Rightarrow> r > 0 | PosInf \<Rightarrow> True | _ \<Rightarrow> False)"

text \<open>\<^verbatim>\<open>v.length > 0\<close>.\<close>

definition length_positive ::
  "(rat \<Rightarrow> string) \<Rightarrow> (string \<Rightarrow> jsnumber) \<Rightarrow> jsval \<Rightarrow> error + bool" where
  "length_positive num_str str_num v =
     (case js_length v of
        Inl e \<Rightarrow> Inl e
      | Inr l \<Rightarrow> Inr (greater_than_zero str_num (to_primitive num_str l)))"

subsection \<open>The state of a listing page\<close>

record filter_criteria =
  baseModel :: jsval
  tags :: jsval

definition empty_filters :: filter_criteria where
  "empty_filters = \<lparr>baseModel = JArr [], tags = JArr []\<rparr>"

text \<open>The object handed to \<^verbatim>\<open>JSON.stringify\<close>.\<close>

definition filters_object :: "filter_criteria \<Rightarrow> jsval" where
  "filters_object f = JObj [(''baseModel'', baseModel f), (''tags'', tags f)]"

text \<open>A \<^verbatim>\<open>.tag-filter\<close> or \<^verbatim>\<open>.base-model-tag\<close> element: its name and the class \<^verbatim>\<open>active\<close>.\<close>

record tag_element =
  tag_name :: string
  active :: bool

text \<open>
  The calls made to the reload collaborators: \<^verbatim>\<open>recipeManager.loadRecipes(true)\<close>,
  \<^verbatim>\<open>loadMoreLoras(true, true)\<close>, \<^verbatim>\<open>checkpointManager.loadCheckpoints(true)\<close>,
  \<^verbatim>\<open>recipeManager.loadRecipes(this.filters)\<close>, \<^verbatim>\<open>recipeManager.loadRecipes()\<close>, and the
  assignment of \<^verbatim>\<open>/loras/recipes\<close> to \<^verbatim>\<open>window.location.href\<close> with the values of the
  query parameters \<^verbatim>\<open>base_models\<close> and \<^verbatim>\<open>tags\<close> where they are appended.
\<close>

datatype reload_call =
    LoadRecipesReset
  | LoadMoreLoras
  | LoadCheckpoints
  | LoadRecipesWith filter_criteria
  | LoadRecipesPlain
  | Navigate "string option" "string option"

text \<open>
  The toasts of the filter managers: \<^verbatim>\<open>Filtering by b base model(s) and t tag(s)\<close> with
  the two lengths, where a length that is not greater than 0 is left out of the text
  (\<open>None\<close>), \<^verbatim>\<open>Filters cleared\<close> and \<^verbatim>\<open>Recipe filters cleared\<close>.
\<close>

datatype filter_message =
    FilteringBy "jsval option" "jsval option"
  | FiltersCleared
  | RecipeFiltersCleared

text \<open>
  The manager (\<open>currentPage\<close>, \<open>filters\<close>) and what it reaches: \<^verbatim>\<open>localStorage\<close>, the
  \<^verbatim>\<open>filters\<close> of the page state (\<open>None\<close> when unset), the tag elements in the document,
  the class \<^verbatim>\<open>active\<close> of the filter button, the counter \<^verbatim>\<open>#activeFiltersCount\<close> (the
  value it shows, \<open>None\<close> while it is hidden), whether \<^verbatim>\<open>window.recipeManager\<close> and
  \<^verbatim>\<open>window.checkpointManager\<close> exist, whether the reload collaborator rejects, the calls
  made to the collaborators and the toasts shown, oldest first. The page's fixed elements
  (button, counter) are taken to exist.
\<close>

record filter_state =
  currentPage :: string
  filters :: filter_criteria
  localStorage :: "string \<rightharpoonup> string"
  page_filters :: "filter_criteria option"
  base_model_tags :: "tag_element list"
  tag_filters :: "tag_element list"
  filterButton_active :: bool
  activeFiltersCount :: "prim option"
  recipeManager :: bool
  checkpointManager :: bool
  reload_fails :: bool
  reloads :: "reload_call list"
  filter_toasts :: "(filter_message \<times> severity) list"

subsection \<open>Methods shared by both managers\<close>

text \<open>The \<^verbatim>\<open>forEach\<close> of \<^verbatim>\<open>updateTagSelections\<close> over one kind of tag elements.\<close>

fun mark_tags :: "jsval \<Rightarrow> tag_element list \<Rightarrow> error + tag_element list" where
  "mark_tags v [] = Inr []"
| "mark_tags v (el # els) =
     (case js_includes v (tag_name el) of
        Inl e \<Rightarrow> Inl e
      | Inr b \<Rightarrow> (case mark_tags v els of
                    Inl e \<Rightarrow> Inl e
                  | Inr els' \<Rightarrow> Inr (el\<lparr>active := b\<rparr> # els')))"

definition updateTagSelections :: "filter_state \<Rightarrow> filter_state outcome" where
  "updateTagSelections s =
     (case mark_tags (baseModel (filters s)) (base_model_tags s) of
        Inl e \<Rightarrow> Raised e s
      | Inr bs \<Rightarrow>
          (case mark_tags (tags (filters s)) (tag_filters s) of
             Inl e \<Rightarrow> Raised e (s\<lparr>base_model_tags := bs\<rparr>)
           | Inr ts \<Rightarrow> Returned (s\<lparr>base_model_tags := bs, tag_filters := ts\<rparr>)))"

text \<open>
  \<^verbatim>\<open>updateActiveFiltersCount\<close>: both lengths are read and added before anything is
  assigned.
\<close>

definition updateActiveFiltersCount ::
  "(rat \<Rightarrow> string) \<Rightarrow> (string \<Rightarrow> jsnumber) \<Rightarrow> filter_state \<Rightarrow> error + filter_state" where
  "updateActiveFiltersCount num_str str_num s =
     (case js_length (baseModel (filters s)) of
        Inl e \<Rightarrow> Inl e
      | Inr b \<Rightarrow>
          (case js_length (tags (filters s)) of
             Inl e \<Rightarrow> Inl e
           | Inr t \<Rightarrow>
               (let totalActiveFilters = js_plus num_str str_num b t
                in if greater_than_zero str_num totalActiveFilters
                   then Inr (s\<lparr>activeFiltersCount := Some totalActiveFilters\<rparr>)
                   else Inr (s\<lparr>activeFiltersCount := None\<rparr>))))"

text \<open>\<^verbatim>\<open>hasActiveFilters\<close>: the second length is read only when the first test fails.\<close>

definition hasActiveFilters ::
  "(rat \<Rightarrow> string) \<Rightarrow> (string \<Rightarrow> jsnumber) \<Rightarrow> filter_state \<Rightarrow> error + bool" where
  "hasActiveFilters num_str str_num s =
     (case length_positive num_str str_num (baseModel (filters s)) of
        Inl e \<Rightarrow> Inl e
      | Inr True \<Rightarrow> Inr True
      | Inr False \<Rightarrow> length_positive num_str str_num (tags (filters s)))"

definition filter_toast :: "filter_message \<Rightarrow> severity \<Rightarrow> filter_state \<Rightarrow> filter_state" where
  "filter_toast m sev s = s\<lparr>filter_toasts := filter_toasts s @ [(m, sev)]\<rparr>"

text \<open>
  The end of both \<^verbatim>\<open>applyFilters\<close>: the button's class and the summary toast, for which
  both lengths are read again.
\<close>

definition show_filter_result ::
  "(rat \<Rightarrow> string) \<Rightarrow> (string \<Rightarrow> jsnumber) \<Rightarrow> bool \<Rightarrow> filter_state \<Rightarrow> filter_state outcome" where
  "show_filter_result num_str str_num showToastNotification s =
     (case hasActiveFilters num_str str_num s of
        Inl e \<Rightarrow> Raised e s
      | Inr True \<Rightarrow>
          (let s1 = s\<lparr>filterButton_active := True\<rparr>
           in if showToastNotification then
                (case js_length (baseModel (filters s)) of
                   Inl e \<Rightarrow> Raised e s1
                 | Inr baseModelCount \<Rightarrow>
                     (case js_length (tags (filters s)) of
                        Inl e \<Rightarrow> Raised e s1
                      | Inr tagsCount \<Rightarrow>
                          Returned (filter_toast
                            (FilteringBy
                               (if greater_than_zero str_num (to_primitive num_str baseModelCount)
                                then baseModelCount else None)
                               (if greater_than_zero str_num (to_primitive num_str tagsCount)
                                then tagsCount else None))
                            Success s1)))
              else Returned s1)
      | Inr False \<Rightarrow>
          (let s1 = s\<lparr>filterButton_active := False\<rparr>
           in if showToastNotification then Returned (filter_toast FiltersCleared Info s1)
              else Returned s1))"

text \<open>
  What a click on a tag element does to the field: the element's class is toggled first,
  and its new value, not the field, decides between adding and removing.
\<close>

definition toggle_in_field :: "bool \<Rightarrow> jsval \<Rightarrow> string \<Rightarrow> error + jsval" where
  "toggle_in_field now_active field t =
     (if now_active then
        (case js_includes field t of
           Inl e \<Rightarrow> Inl e
         | Inr present \<Rightarrow> if \<not> present then js_push field t else Inr field)
      else js_filter_out field t)"

subsection \<open>FilterManager\<close>

text \<open>\<^verbatim>\<open>options.page || document.body.dataset.page || 'loras'\<close>.\<close>

fun or_string :: "string option \<Rightarrow> string \<Rightarrow> string" where
  "or_string None d = d"
| "or_string (Some v) d = (if v = [] then d else v)"

text \<open>The reload collaborator that \<^verbatim>\<open>applyFilters\<close> and \<^verbatim>\<open>clearFilters\<close> call, if any.\<close>

definition reload_for_page :: "filter_state \<Rightarrow> reload_call option" where
  "reload_for_page s =
     (if currentPage s = ''recipes'' \<and> recipeManager s then Some LoadRecipesReset
      else if currentPage s = ''loras'' then Some LoadMoreLoras
      else if currentPage s = ''checkpoints'' \<and> checkpointManager s then Some LoadCheckpoints
      else None)"

text \<open>
  The \<^verbatim>\<open>await\<close> of the collaborator: the call is recorded, and its rejection leaves the
  caller, which has no \<^verbatim>\<open>try\<close> around it.
\<close>

definition call_reload :: "filter_state \<Rightarrow> filter_state outcome" where
  "call_reload s =
     (case reload_for_page s of
        None \<Rightarrow> Returned s
      | Some c \<Rightarrow>
          (if reload_fails s then Raised ReloadFailed (s\<lparr>reloads := reloads s @ [c]\<rparr>)
           else Returned (s\<lparr>reloads := reloads s @ [c]\<rparr>)))"

text \<open>\<^verbatim>\<open>applyFilters(showToastNotification)\<close>; \<open>stringify\<close> is the engine's \<^verbatim>\<open>JSON.stringify\<close>.\<close>

definition applyFilters ::
  "(jsval \<Rightarrow> string) \<Rightarrow> (rat \<Rightarrow> string) \<Rightarrow> (string \<Rightarrow> jsnumber) \<Rightarrow> bool \<Rightarrow>
   filter_state \<Rightarrow> filter_state outcome" where
  "applyFilters stringify num_str str_num showToastNotification s =
     (let s1 = s\<lparr>localStorage := (localStorage s)
                    (currentPage s @ ''_filters'' \<mapsto> stringify (filters_object (filters s))),
                  page_filters := Some (filters s)\<rparr>
      in case call_reload s1 of
           Raised e s2 \<Rightarrow> Raised e s2
         | Returned s2 \<Rightarrow> show_filter_result num_str str_num showToastNotification s2)"

text \<open>
  The click handlers that \<^verbatim>\<open>createTagFilterElements\<close> and \<^verbatim>\<open>createBaseModelTags\<close>
  attach; \<open>i\<close> is the position of the clicked element among the elements of its kind.
  Nothing in a handler is inside a \<^verbatim>\<open>try\<close>.
\<close>

definition tag_click ::
  "(jsval \<Rightarrow> string) \<Rightarrow> (rat \<Rightarrow> string) \<Rightarrow> (string \<Rightarrow> jsnumber) \<Rightarrow> nat \<Rightarrow>
   filter_state \<Rightarrow> filter_state outcome" where
  "tag_click stringify num_str str_num i s =
     (if i < length (tag_filters s) then
        (let el = tag_filters s ! i;
             s1 = s\<lparr>tag_filters := (tag_filters s)[i := el\<lparr>active := \<not> active el\<rparr>]\<rparr>
         in case toggle_in_field (\<not> active el) (tags (filters s1)) (tag_name el) of
              Inl e \<Rightarrow> Raised e s1
            | Inr ts \<Rightarrow>
                (let s2 = s1\<lparr>filters := (filters s1)\<lparr>tags := ts\<rparr>\<rparr>
                 in case updateActiveFiltersCount num_str str_num s2 of
                      Inl e \<Rightarrow> Raised e s2
                    | Inr s3 \<Rightarrow> applyFilters stringify num_str str_num False s3))
      else Returned s)"

definition base_model_click ::
  "(jsval \<Rightarrow> string) \<Rightarrow> (rat \<Rightarrow> string) \<Rightarrow> (string \<Rightarrow> jsnumber) \<Rightarrow> nat \<Rightarrow>
   filter_state \<Rightarrow> filter_state outcome" where
  "base_model_click stringify num_str str_num i s =
     (if i < length (base_model_tags s) then
        (let el = base_model_tags s ! i;
             s1 = s\<lparr>base_model_tags := (base_model_tags s)[i := el\<lparr>active := \<not> active el\<rparr>]\<rparr>
         in case toggle_in_field (\<not> active el) (baseModel (filters s1)) (tag_name el) of
              Inl e \<Rightarrow> Raised e s1
            | Inr bs \<Rightarrow>
                (let s2 = s1\<lparr>filters := (filters s1)\<lparr>baseModel := bs\<rparr>\<rparr>
                 in case updateActiveFiltersCount num_str str_num s2 of
                      Inl e \<Rightarrow> Raised e s2
                    | Inr s3 \<Rightarrow> applyFilters stringify num_str str_num False s3))
      else Returned s)"

definition clearFilters ::
  "(rat \<Rightarrow> string) \<Rightarrow> (string \<Rightarrow> jsnumber) \<Rightarrow> filter_state \<Rightarrow> filter_state outcome" where
  "clearFilters num_str str_num s =
     (let s1 = s\<lparr>filters := empty_filters, page_filters := Some empty_filters\<rparr>
      in case updateTagSelections s1 of
           Raised e s2 \<Rightarrow> Raised e s2
         | Returned s2 \<Rightarrow>
             (case updateActiveFiltersCount num_str str_num s2 of
                Inl e \<Rightarrow> Raised e s2
              | Inr s3 \<Rightarrow>
                  (let s4 = s3\<lparr>localStorage :=
                                 (localStorage s3)(currentPage s3 @ ''_filters'' := None),
                               filterButton_active := False\<rparr>
                   in case call_reload s4 of
                        Raised e s5 \<Rightarrow> Raised e s5
                      | Returned s5 \<Rightarrow> Returned (filter_toast FiltersCleared Info s5))))"

text \<open>
  \<^verbatim>\<open>loadFiltersFromStorage()\<close>; \<open>parse\<close> is the engine's \<^verbatim>\<open>JSON.parse\<close>. Everything
  after \<^verbatim>\<open>getItem\<close> is inside the \<^verbatim>\<open>try\<close>: an exception ends the block and keeps what
  was assigned before it.
\<close>

definition load_parsed ::
  "(rat \<Rightarrow> string) \<Rightarrow> (string \<Rightarrow> jsnumber) \<Rightarrow> bool \<Rightarrow> jsval \<Rightarrow> filter_state \<Rightarrow> filter_state" where
  "load_parsed num_str str_num with_page_state parsedFilters s =
     (case get_prop parsedFilters ''baseModel'' of
        Inl e \<Rightarrow> s
      | Inr b \<Rightarrow>
          (case get_prop parsedFilters ''tags'' of
             Inl e \<Rightarrow> s
           | Inr t \<Rightarrow>
               (let f = \<lparr>baseModel = or_else b (JArr []), tags = or_else t (JArr [])\<rparr>;
                    s1 = (if with_page_state then s\<lparr>filters := f, page_filters := Some f\<rparr>
                          else s\<lparr>filters := f\<rparr>)
                in case updateTagSelections s1 of
                     Raised e s2 \<Rightarrow> s2
                   | Returned s2 \<Rightarrow>
                       (case updateActiveFiltersCount num_str str_num s2 of
                          Inl e \<Rightarrow> s2
                        | Inr s3 \<Rightarrow>
                            (case hasActiveFilters num_str str_num s3 of
                               Inl e \<Rightarrow> s3
                             | Inr active_filters \<Rightarrow>
                                 if active_filters then s3\<lparr>filterButton_active := True\<rparr>
                                 else s3)))))"

definition loadFiltersFromStorage ::
  "(string \<Rightarrow> error + jsval) \<Rightarrow> (rat \<Rightarrow> string) \<Rightarrow> (string \<Rightarrow> jsnumber) \<Rightarrow>
   filter_state \<Rightarrow> filter_state" where
  "loadFiltersFromStorage parse num_str str_num s =
     (case localStorage s (currentPage s @ ''_filters'') of
        None \<Rightarrow> s
      | Some savedFilters \<Rightarrow>
          (if savedFilters = [] then s
           else (case parse savedFilters of
                   Inl e \<Rightarrow> s
                 | Inr parsedFilters \<Rightarrow> load_parsed num_str str_num True parsedFilters s)))"

text \<open>
  The constructor on a page \<open>s\<close>: the page name, the filters of the page state or the
  empty ones, then \<^verbatim>\<open>initialize()\<close>, whose only synchronous effect on the state is
  \<^verbatim>\<open>loadFiltersFromStorage()\<close> (the base-model tags arrive later, with a fetch).
\<close>

definition FilterManager ::
  "(string \<Rightarrow> error + jsval) \<Rightarrow> (rat \<Rightarrow> string) \<Rightarrow> (string \<Rightarrow> jsnumber) \<Rightarrow>
   string option \<Rightarrow> string option \<Rightarrow> filter_state \<Rightarrow> filter_state" where
  "FilterManager parse num_str str_num options_page body_page s =
     loadFiltersFromStorage parse num_str str_num
       (s\<lparr>currentPage := or_string options_page (or_string body_page ''loras''),
          filters := (case page_filters s of Some f \<Rightarrow> f | None \<Rightarrow> empty_filters)\<rparr>)"

subsection \<open>RecipeFilterManager\<close>

text \<open>
  \<^verbatim>\<open>_applyFiltersByPageReload()\<close>: a parameter is appended when the field's length is
  greater than 0, with \<^verbatim>\<open>join(',')\<close>, which only arrays have.
\<close>

definition joined_param ::
  "(rat \<Rightarrow> string) \<Rightarrow> (string \<Rightarrow> jsnumber) \<Rightarrow> jsval \<Rightarrow> error + string option" where
  "joined_param num_str str_num v =
     (case length_positive num_str str_num v of
        Inl e \<Rightarrow> Inl e
      | Inr False \<Rightarrow> Inr None
      | Inr True \<Rightarrow>
          (case v of JArr xs \<Rightarrow> Inr (Some (toStr num_str (JArr xs))) | _ \<Rightarrow> Inl TypeError))"

definition applyFiltersByPageReload ::
  "(rat \<Rightarrow> string) \<Rightarrow> (string \<Rightarrow> jsnumber) \<Rightarrow> filter_state \<Rightarrow> filter_state outcome" where
  "applyFiltersByPageReload num_str str_num s =
     (case joined_param num_str str_num (baseModel (filters s)) of
        Inl e \<Rightarrow> Raised e s
      | Inr b \<Rightarrow>
          (case joined_param num_str str_num (tags (filters s)) of
             Inl e \<Rightarrow> Raised e s
           | Inr t \<Rightarrow> Returned (s\<lparr>reloads := reloads s @ [Navigate b t]\<rparr>)))"

definition recipe_applyFilters ::
  "(jsval \<Rightarrow> string) \<Rightarrow> (rat \<Rightarrow> string) \<Rightarrow> (string \<Rightarrow> jsnumber) \<Rightarrow> bool \<Rightarrow>
   filter_state \<Rightarrow> filter_state outcome" where
  "recipe_applyFilters stringify num_str str_num showToastNotification s =
     (let s1 = s\<lparr>localStorage := (localStorage s)
                    (''recipeFilters'' \<mapsto> stringify (filters_object (filters s)))\<rparr>;
          r = (if recipeManager s1 then
                 (let s2 = s1\<lparr>reloads := reloads s1 @ [LoadRecipesWith (filters s1)]\<rparr>
                  in if reload_fails s2 then applyFiltersByPageReload num_str str_num s2
                     else Returned s2)
               else applyFiltersByPageReload num_str str_num s1)
      in case r of
           Raised e s3 \<Rightarrow> Raised e s3
         | Returned s3 \<Rightarrow> show_filter_result num_str str_num showToastNotification s3)"

definition recipe_tag_click ::
  "(jsval \<Rightarrow> string) \<Rightarrow> (rat \<Rightarrow> string) \<Rightarrow> (string \<Rightarrow> jsnumber) \<Rightarrow> nat \<Rightarrow>
   filter_state \<Rightarrow> filter_state outcome" where
  "recipe_tag_click stringify num_str str_num i s =
     (if i < length (tag_filters s) then
        (let el = tag_filters s ! i;
             s1 = s\<lparr>tag_filters := (tag_filters s)[i := el\<lparr>active := \<not> active el\<rparr>]\<rparr>
         in case toggle_in_field (\<not> active el) (tags (filters s1)) (tag_name el) of
              Inl e \<Rightarrow> Raised e s1
            | Inr ts \<Rightarrow>
                (let s2 = s1\<lparr>filters := (filters s1)\<lparr>tags := ts\<rparr>\<rparr>
                 in case updateActiveFiltersCount num_str str_num s2 of
                      Inl e \<Rightarrow> Raised e s2
                    | Inr s3 \<Rightarrow> recipe_applyFilters stringify num_str str_num False s3))
      else Returned s)"

definition recipe_base_model_click ::
  "(jsval \<Rightarrow> string) \<Rightarrow> (rat \<Rightarrow> string) \<Rightarrow> (string \<Rightarrow> jsnumber) \<Rightarrow> nat \<Rightarrow>
   filter_state \<Rightarrow> filter_state outcome" where
  "recipe_base_model_click stringify num_str str_num i s =
     (if i < length (base_model_tags s) then
        (let el = base_model_tags s ! i;
             s1 = s\<lparr>base_model_tags := (base_model_tags s)[i := el\<lparr>active := \<not> active el\<rparr>]\<rparr>
         in case toggle_in_field (\<not> active el) (baseModel (filters s1)) (tag_name el) of
              Inl e \<Rightarrow> Raised e s1
            | Inr bs \<Rightarrow>
                (let s2 = s1\<lparr>filters := (filters s1)\<lparr>baseModel := bs\<rparr>\<rparr>
                 in case updateActiveFiltersCount num_str str_num s2 of
                      Inl e \<Rightarrow> Raised e s2
                    | Inr s3 \<Rightarrow> recipe_applyFilters stringify num_str str_num False s3))
      else Returned s)"

definition recipe_clearFilters ::
  "(rat \<Rightarrow> string) \<Rightarrow> (string \<Rightarrow> jsnumber) \<Rightarrow> filter_state \<Rightarrow> filter_state outcome" where
  "recipe_clearFilters num_str str_num s =
     (let s1 = s\<lparr>filters := empty_filters\<rparr>
      in case updateTagSelections s1 of
           Raised e s2 \<Rightarrow> Raised e s2
         | Returned s2 \<Rightarrow>
             (case updateActiveFiltersCount num_str str_num s2 of
                Inl e \<Rightarrow> Raised e s2
              | Inr s3 \<Rightarrow>
                  (let s4 = s3\<lparr>localStorage := (localStorage s3)(''recipeFilters'' := None),
                               filterButton_active := False\<rparr>
                   in if recipeManager s4 then
                        (let s5 = s4\<lparr>reloads := reloads s4 @ [LoadRecipesPlain]\<rparr>
                         in if reload_fails s5 then Raised ReloadFailed s5
                            else Returned (filter_toast RecipeFiltersCleared Info s5))
                      else
                        Returned (filter_toast RecipeFiltersCleared Info
                          (s4\<lparr>reloads := reloads s4 @ [Navigate None None]\<rparr>)))))"

definition recipe_loadFiltersFromStorage ::
  "(string \<Rightarrow> error + jsval) \<Rightarrow> (rat \<Rightarrow> string) \<Rightarrow> (string \<Rightarrow> jsnumber) \<Rightarrow>
   filter_state \<Rightarrow> filter_state" where
  "recipe_loadFiltersFromStorage parse num_str str_num s =
     (case localStorage s ''recipeFilters'' of
        None \<Rightarrow> s
      | Some savedFilters \<Rightarrow>
          (if savedFilters = [] then s
           else (case parse savedFilters of
                   Inl e \<Rightarrow> s
                 | Inr parsedFilters \<Rightarrow> load_parsed num_str str_num False parsedFilters s)))"

definition RecipeFilterManager ::
  "(string \<Rightarrow> error + jsval) \<Rightarrow> (rat \<Rightarrow> string) \<Rightarrow> (string \<Rightarrow> jsnumber) \<Rightarrow>
   filter_state \<Rightarrow> filter_state" where
  "RecipeFilterManager parse num_str str_num s =
     recipe_loadFiltersFromStorage parse num_str str_num (s\<lparr>filters := empty_filters\<rparr>)"

text \<open>Both fields are arrays, and neither holds an element twice.\<close>

definition tag_array :: "jsval \<Rightarrow> bool" where
  "tag_array v = (case v of JArr xs \<Rightarrow> distinct xs | _ \<Rightarrow> False)"

definition criteria_ok :: "filter_criteria \<Rightarrow> bool" where
  "criteria_ok f = (tag_array (baseModel f) \<and> tag_array (tags f))"

text \<open>
  What storage may hold for the fields to come out as arrays without duplicates: nothing,
  the empty string, a text that \<^verbatim>\<open>JSON.parse\<close> rejects, \<^verbatim>\<open>null\<close>, or a value whose
  \<^verbatim>\<open>baseModel\<close> and \<^verbatim>\<open>tags\<close> are each missing, falsy or such an array.
\<close>

definition field_ok :: "jsval option \<Rightarrow> bool" where
  "field_ok p = (case p of None \<Rightarrow> True | Some v \<Rightarrow> \<not> truthy v \<or> tag_array v)"

definition stored_ok :: "(string \<Rightarrow> error + jsval) \<Rightarrow> string option \<Rightarrow> bool" where
  "stored_ok parse saved =
     (case saved of
        None \<Rightarrow> True
      | Some t \<Rightarrow>
          t = [] \<or>
          (case parse t of
             Inl e \<Rightarrow> True
           | Inr p \<Rightarrow>
               (case get_prop p ''baseModel'' of
                  Inl e \<Rightarrow> True
                | Inr b \<Rightarrow> (case get_prop p ''tags'' of
                              Inl e \<Rightarrow> True
                            | Inr t \<Rightarrow> field_ok b \<and> field_ok t))))"



subsection \<open>Example listing pages\<close>

text \<open>\<^verbatim>\<open>JSON.stringify\<close> on the two filter objects of the examples, its only arguments there.\<close>

definition example_stringify :: "jsval \<Rightarrow> string" where
  \<open>example_stringify v =
     (if v = JObj [(''baseModel'', JArr []), (''tags'', JArr [JStr ''sci-fi''])]
        then ''{"baseModel":[],"tags":["sci-fi"]}''
      else if v = JObj [(''baseModel'', JArr []), (''tags'', JArr [])]
        then ''{"baseModel":[],"tags":[]}''
      else ''{}'')\<close>

text \<open>The conversion of a string to a number, on the empty string.\<close>

definition example_str_num :: "string \<Rightarrow> jsnumber" where
  "example_str_num t = (if t = [] then Fin 0 else NaN)"

text \<open>
  The LoRA page just loaded, with the given storage: no filters in the page state, one
  tag element \<^verbatim>\<open>sci-fi\<close>, not active.
\<close>

definition example_listing :: "(string \<rightharpoonup> string) \<Rightarrow> filter_state" where
  "example_listing storage =
     \<lparr>currentPage = ''loras'', filters = empty_filters, localStorage = storage,
      page_filters = None, base_model_tags = [],
      tag_filters = [\<lparr>tag_name = ''sci-fi'', active = False\<rparr>],
      filterButton_active = False, activeFiltersCount = None, recipeManager = True,
      checkpointManager = False, reload_fails = False, reloads = [], filter_toasts = []\<rparr>"

section \<open>Properties of the BulkManager\<close>

subsection \<open>What the counter and the strip leave alone\<close>

lemma frame_update_hide_aux:
  "(cards (state_of (updateSelectedCount n s)) = cards s \<and>
    selectedLoras (state_of (updateSelectedCount n s)) = selectedLoras s \<and>
    loraMetadataCache (state_of (updateSelectedCount n s)) = loraMetadataCache s) \<and>
   (cards (state_of (hideThumbnailStrip n s)) = cards s \<and>
    selectedLoras (state_of (hideThumbnailStrip n s)) = selectedLoras s \<and>
    loraMetadataCache (state_of (hideThumbnailStrip n s)) = loraMetadataCache s)"
proof (induction n arbitrary: s)
  case 0
  show ?case by simp
next
  case (Suc n)
  have u: "cards (state_of (updateSelectedCount (Suc n) s)) = cards s \<and>
    selectedLoras (state_of (updateSelectedCount (Suc n) s)) = selectedLoras s \<and>
    loraMetadataCache (state_of (updateSelectedCount (Suc n) s)) = loraMetadataCache s"
    by (simp add: Let_def Suc split: option.splits)
  have h: "cards (state_of (hideThumbnailStrip (Suc n) s)) = cards s \<and>
    selectedLoras (state_of (hideThumbnailStrip (Suc n) s)) = selectedLoras s \<and>
    loraMetadataCache (state_of (hideThumbnailStrip (Suc n) s)) = loraMetadataCache s"
  proof (cases "strip s")
    case None
    then show ?thesis by simp
  next
    case (Some st)
    let ?s1 = "s\<lparr>strip := Some (st\<lparr>visible_class := False\<rparr>), isStripVisible := False\<rparr>"
    from Suc [of ?s1] show ?thesis
      by (cases "updateSelectedCount n ?s1") (simp_all add: Some Let_def)
  qed
  from u h show ?case by blast
qed

lemma frame_updateThumbnailStrip:
  "cards (updateThumbnailStrip s) = cards s \<and>
   selectedLoras (updateThumbnailStrip s) = selectedLoras s"
  by (simp add: updateThumbnailStrip_def split: option.splits)

lemma toggle_frame:
  assumes "i < length (cards s)"
  shows "cards (state_of (toggleCardSelection n i s)) =
           (cards s)[i := (cards s ! i)\<lparr>selected := \<not> selected (cards s ! i)\<rparr>] \<and>
         selectedLoras (state_of (toggleCardSelection n i s)) =
           (if selected (cards s ! i) then set_delete (filepath (cards s ! i)) (selectedLoras s)
            else set_add (filepath (cards s ! i)) (selectedLoras s))"
proof -
  define t where "t = (let c = cards s ! i in
      if selected c then
        s\<lparr>cards := (cards s)[i := c\<lparr>selected := False\<rparr>],
          selectedLoras := set_delete (filepath c) (selectedLoras s)\<rparr>
      else
        s\<lparr>cards := (cards s)[i := c\<lparr>selected := True\<rparr>],
          selectedLoras := set_add (filepath c) (selectedLoras s),
          loraMetadataCache := (loraMetadataCache s)(filepath c \<mapsto> card_metadata c)\<rparr>)"
  have eq: "toggleCardSelection n i s =
      (case updateSelectedCount n t of
         Raised e s2 \<Rightarrow> Raised e s2
       | Returned s2 \<Rightarrow> Returned (if isStripVisible s2 then updateThumbnailStrip s2 else s2))"
    using assms by (simp add: toggleCardSelection_def t_def Let_def)
  have fr: "cards (state_of (toggleCardSelection n i s)) = cards t \<and>
            selectedLoras (state_of (toggleCardSelection n i s)) = selectedLoras t"
    using frame_update_hide_aux [of n t]
    by (cases "updateSelectedCount n t") (simp_all add: eq frame_updateThumbnailStrip)
  show ?thesis
    by (simp add: fr t_def Let_def)
qed

text \<open>
  C8. After every call of \<^verbatim>\<open>toggleCardSelection\<close> on a rendered card, whether the call
  returned or raised on the way, the card carries the marker \<^verbatim>\<open>selected\<close> if and only if
  its path is in \<^verbatim>\<open>state.selectedLoras\<close>; nothing is assumed about the marker and the
  set before the call.
\<close>

theorem toggleCardSelection_marker_matches:
  "i < length (cards s) \<Longrightarrow>
   selected (cards (state_of (toggleCardSelection n i s)) ! i) =
   (filepath (cards (state_of (toggleCardSelection n i s)) ! i)
      \<in> set (selectedLoras (state_of (toggleCardSelection n i s))))"
  by (simp add: toggle_frame set_add_def set_delete_def)

text \<open>The witness starts from a card that carries the marker while its path is not in the set.\<close>

theorem toggleCardSelection_marker_matches_witness:
  "0 < length (cards (example_page [example_card ''a'' True])) \<and>
   selected (cards (state_of (toggleCardSelection 5 0 (example_page [example_card ''a'' True]))) ! 0) =
   (filepath (cards (state_of (toggleCardSelection 5 0 (example_page [example_card ''a'' True]))) ! 0)
      \<in> set (selectedLoras (state_of (toggleCardSelection 5 0 (example_page [example_card ''a'' True])))))"
  using toggleCardSelection_marker_matches [of 0 "example_page [example_card ''a'' True]" 5]
  by (simp add: example_page_def)

subsection \<open>Parity of the toggles\<close>

lemma toggle_step:
  assumes i: "i < length (cards s)"
    and d: "distinct (map filepath (cards s))"
    and m: "markers_agree s"
  shows "map filepath (cards (state_of (toggleCardSelection n i s))) = map filepath (cards s)"
    and "markers_agree (state_of (toggleCardSelection n i s))"
    and "(k \<in> set (selectedLoras (state_of (toggleCardSelection n i s)))) =
         ((k \<in> set (selectedLoras s)) \<noteq> (filepath (cards s ! i) = k))"
proof -
  let ?s' = "state_of (toggleCardSelection n i s)"
  let ?c = "cards s ! i"
  note fr = toggle_frame [OF i, of n]
  have sel: "selected ?c = (filepath ?c \<in> set (selectedLoras s))"
    using m i by (simp add: markers_agree_def)
  show fp: "map filepath (cards ?s') = map filepath (cards s)"
    using i by (simp add: fr map_update list_update_same_conv)
  show "(k \<in> set (selectedLoras ?s')) = ((k \<in> set (selectedLoras s)) \<noteq> (filepath ?c = k))"
    using sel by (auto simp: fr set_add_def set_delete_def)
  show "markers_agree ?s'"
    unfolding markers_agree_def
  proof
    fix c assume "c \<in> set (cards ?s')"
    then obtain j where j: "j < length (cards s)" and c: "c = cards ?s' ! j"
      by (metis fr in_set_conv_nth length_list_update)
    show "selected c = (filepath c \<in> set (selectedLoras ?s'))"
    proof (cases "j = i")
      case True
      then show ?thesis using i c by (simp add: fr set_add_def set_delete_def)
    next
      case False
      then have cj: "c = cards s ! j" using c by (simp add: fr)
      have "filepath (cards s ! j) \<noteq> filepath ?c"
        using d False i j by (metis distinct_conv_nth length_map nth_map)
      moreover have "selected (cards s ! j) = (filepath (cards s ! j) \<in> set (selectedLoras s))"
        using m j by (simp add: markers_agree_def)
      ultimately show ?thesis
        by (auto simp: cj fr set_add_def set_delete_def)
    qed
  qed
qed

text \<open>
  C1 as stated fails. \<^verbatim>\<open>toggleCardSelection\<close> branches on the card's marker, not on the
  set. With two rendered cards of one path, a click on each is two toggles of that key and
  leaves the key selected, though it was not selected before. With a card that carries
  the marker while its path is not in the set, one toggle leaves the key out of the set.
\<close>

theorem toggle_parity_counterexample:
  "''a'' \<notin> set (selectedLoras (example_page [example_card ''a'' False, example_card ''a'' False])) \<and>
   even (length (filter
     (\<lambda>i. filepath (cards (example_page [example_card ''a'' False, example_card ''a'' False]) ! i) = ''a'')
     [0, 1])) \<and>
   ''a'' \<in> set (selectedLoras
     (toggle_all 5 [0, 1] (example_page [example_card ''a'' False, example_card ''a'' False]))) \<and>
   ''a'' \<notin> set (selectedLoras (example_page [example_card ''a'' True])) \<and>
   odd (length (filter
     (\<lambda>i. filepath (cards (example_page [example_card ''a'' True]) ! i) = ''a'') [0])) \<and>
   ''a'' \<notin> set (selectedLoras (toggle_all 5 [0] (example_page [example_card ''a'' True])))"
  by (simp add: example_page_def example_card_def toggleCardSelection_def Let_def
      set_add_def set_delete_def eval_nat_numeral card_metadata_def)

text \<open>
  C1, amended. When no two rendered cards have the same path and every rendered card
  carries the marker exactly when its path is selected, then after any sequence of
  \<^verbatim>\<open>toggleCardSelection\<close> calls on rendered cards a key is in the set if and only if its
  membership before the sequence, flipped when the key was toggled an odd number of
  times, says so.
\<close>

theorem toggle_parity:
  assumes "distinct (map filepath (cards s))"
    and "markers_agree s"
    and "\<forall>i \<in> set is. i < length (cards s)"
  shows "(k \<in> set (selectedLoras (toggle_all n is s))) =
         ((k \<in> set (selectedLoras s)) \<noteq> odd (length (filter (\<lambda>i. filepath (cards s ! i) = k) is)))"
  using assms
proof (induction "is" arbitrary: s)
  case Nil
  then show ?case by simp
next
  case (Cons i "is")
  let ?s' = "state_of (toggleCardSelection n i s)"
  have i: "i < length (cards s)" using Cons.prems by simp
  note st = toggle_step [OF i Cons.prems(1) Cons.prems(2), where n = n]
  have len: "length (cards ?s') = length (cards s)"
    using st(1) by (metis length_map)
  have fpeq: "\<And>j. j < length (cards s) \<Longrightarrow> filepath (cards ?s' ! j) = filepath (cards s ! j)"
    using st(1) len by (metis nth_map)
  have ih: "(k \<in> set (selectedLoras (toggle_all n is ?s'))) =
         ((k \<in> set (selectedLoras ?s')) \<noteq> odd (length (filter (\<lambda>i. filepath (cards ?s' ! i) = k) is)))"
    using Cons.prems by (intro Cons.IH) (simp_all add: st len)
  have "filter (\<lambda>i. filepath (cards ?s' ! i) = k) is = filter (\<lambda>i. filepath (cards s ! i) = k) is"
    using Cons.prems(3) fpeq by (intro filter_cong) auto
  then show ?case
    using ih st(3) [of k] by auto
qed


theorem toggle_parity_witness:
  "distinct (map filepath (cards (example_page [example_card ''a'' False, example_card ''b'' False]))) \<and>
   markers_agree (example_page [example_card ''a'' False, example_card ''b'' False]) \<and>
   ''a'' \<notin> set (selectedLoras
     (toggle_all 5 [0, 1, 0] (example_page [example_card ''a'' False, example_card ''b'' False]))) \<and>
   ''b'' \<in> set (selectedLoras
     (toggle_all 5 [0, 1, 0] (example_page [example_card ''a'' False, example_card ''b'' False])))"
  using toggle_parity [of "example_page [example_card ''a'' False, example_card ''b'' False]"
      "[0, 1, 0]" "''a''" 5]
    toggle_parity [of "example_page [example_card ''a'' False, example_card ''b'' False]"
      "[0, 1, 0]" "''b''" 5]
  by (simp add: example_page_def example_card_def markers_agree_def)

subsection \<open>Clearing the selection\<close>

lemma stuck_aux:
  "selectedCount s \<noteq> None \<Longrightarrow> strip s \<noteq> None \<Longrightarrow> selectedLoras s = [] \<Longrightarrow>
   (\<exists>s'. updateSelectedCount n s = Raised RangeError s' \<and> strip s' \<noteq> None) \<and>
   (\<exists>s'. hideThumbnailStrip n s = Raised RangeError s' \<and> strip s' \<noteq> None)"
proof (induction n arbitrary: s)
  case 0
  then show ?case by simp
next
  case (Suc n)
  from Suc.prems obtain c st where c: "selectedCount s = Some c" and st: "strip s = Some st"
    by auto
  let ?s1 = "s\<lparr>selectedCount := Some \<lparr>shown_count = length (selectedLoras s),
                         caret_down = isStripVisible s,
                         caret_visible = (length (selectedLoras s) > 0)\<rparr>\<rparr>"
  let ?s2 = "s\<lparr>strip := Some (st\<lparr>visible_class := False\<rparr>), isStripVisible := False\<rparr>"
  have 1: "\<exists>s'. hideThumbnailStrip n ?s1 = Raised RangeError s' \<and> strip s' \<noteq> None"
    using Suc.IH [of ?s1] Suc.prems by simp
  have 2: "\<exists>s'. updateSelectedCount n ?s2 = Raised RangeError s' \<and> strip s' \<noteq> None"
    using Suc.IH [of ?s2] Suc.prems by simp
  have u: "updateSelectedCount (Suc n) s = hideThumbnailStrip n ?s1"
    using Suc.prems c by (simp add: Let_def)
  have h: "\<exists>s'. hideThumbnailStrip (Suc n) s = Raised RangeError s' \<and> strip s' \<noteq> None"
    using 2 by (auto simp: st Let_def)
  from 1 u h show ?case by simp
qed

lemma clearSelection_stuck:
  assumes "selectedCount s \<noteq> None" "strip s \<noteq> None"
  shows "\<exists>s'. clearSelection n s = Raised RangeError s' \<and> strip s' \<noteq> None"
proof -
  let ?s1 = "s\<lparr>cards := map (\<lambda>c. if selected c then c\<lparr>selected := False\<rparr> else c) (cards s),
                  selectedLoras := []\<rparr>"
  have "\<exists>s'. updateSelectedCount n ?s1 = Raised RangeError s' \<and> strip s' \<noteq> None"
    using stuck_aux [of ?s1 n] assms by simp
  then show ?thesis
    by (auto simp: clearSelection_def Let_def)
qed

text \<open>
  Without a strip in the document, or without the counter element, the call returns:
  the set is empty, no card carries the marker, a strip that was absent stays absent, and
  a strip that was present has lost the class \<^verbatim>\<open>visible\<close> and leaves the document when
  its timer fires.
\<close>

lemma clearSelection_returns:
  assumes "strip s = None \<or> selectedCount s = None"
  shows "\<exists>s'. clearSelection (Suc (Suc n)) s = Returned s' \<and> selectedLoras s' = [] \<and>
           list_all (\<lambda>c. \<not> selected c) (cards s') \<and>
           (case strip s of
              None \<Rightarrow> strip s' = None
            | Some e \<Rightarrow> strip s' = Some (e\<lparr>visible_class := False,
                                           removal_timers := Suc (removal_timers e)\<rparr>)) \<and>
           strip (strip_timer_fires s') = None"
  using assms
  by (cases n; cases "strip s"; cases "selectedCount s")
     (auto simp: clearSelection_def Let_def list_all_iff strip_timer_fires_def)

text \<open>
  C9 fails on the code. With the counter element and the strip both in the document,
  \<^verbatim>\<open>clearSelection\<close> empties the set and then \<^verbatim>\<open>updateSelectedCount\<close> and
  \<^verbatim>\<open>hideThumbnailStrip\<close> call each other without end: whatever the depth of the stack the
  call raises RangeError, no removal is ever scheduled and the strip stays in the document.
  The state below is reached by selecting one card and opening the strip.
\<close>

theorem clearSelection_overflows:
  "returned (toggleCardSelection 5 0 (example_page [example_card ''a'' False])) \<and>
   returned (toggleThumbnailStrip 5
     (state_of (toggleCardSelection 5 0 (example_page [example_card ''a'' False])))) \<and>
   (\<forall>n. \<exists>s'. clearSelection n
          (state_of (toggleThumbnailStrip 5
            (state_of (toggleCardSelection 5 0 (example_page [example_card ''a'' False]))))) =
          Raised RangeError s' \<and> strip s' \<noteq> None)"
proof -
  let ?s = "state_of (toggleThumbnailStrip 5
            (state_of (toggleCardSelection 5 0 (example_page [example_card ''a'' False]))))"
  have r: "returned (toggleCardSelection 5 0 (example_page [example_card ''a'' False]))"
    "returned (toggleThumbnailStrip 5
       (state_of (toggleCardSelection 5 0 (example_page [example_card ''a'' False]))))"
    by (simp_all add: example_page_def example_card_def toggleCardSelection_def
        toggleThumbnailStrip_def showThumbnailStrip_def updateThumbnailStrip_def Let_def
        set_add_def eval_nat_numeral card_metadata_def)
  have "selectedCount ?s \<noteq> None" and "strip ?s \<noteq> None"
    by (simp_all add: example_page_def example_card_def toggleCardSelection_def
        toggleThumbnailStrip_def showThumbnailStrip_def updateThumbnailStrip_def Let_def
        set_add_def eval_nat_numeral card_metadata_def)
  then have "\<forall>n. \<exists>s'. clearSelection n ?s = Raised RangeError s' \<and> strip s' \<noteq> None"
    using clearSelection_stuck by blast
  with r show ?thesis by blast
qed

section \<open>Properties of copyAllLorasSyntax\<close>

lemma collect_all_missing:
  "\<forall>k \<in> set ks. cache k = None \<Longrightarrow>
   collect_syntaxes parse num_str cache ks syn miss = Inr (syn, miss @ ks)"
  by (induction ks arbitrary: miss) simp_all

text \<open>
  C3 as stated fails in the kind of the first notification: with an empty selection
  \<^verbatim>\<open>copyAllLorasSyntax\<close> calls \<^verbatim>\<open>showToast('No LoRAs selected', 'warning')\<close>, so the
  toast is a warning and no error toast is shown.
\<close>

theorem copy_nothing_to_copy_counterexample:
  "copyAllLorasSyntax example_parse example_num_str True (example_selection [] Map.empty) =
     Inr ((example_selection [] Map.empty)\<lparr>toasts := [(NoLorasSelected, Warning)]\<rparr>) \<and>
   (NoLorasSelected, Error) \<notin>
     set (toasts ((example_selection [] Map.empty)\<lparr>toasts := [(NoLorasSelected, Warning)]\<rparr>))"
  by (simp add: copyAllLorasSyntax_def showToast_def example_selection_def example_page_def)

text \<open>
  C3, amended. With an empty selection \<^verbatim>\<open>copyAllLorasSyntax\<close> shows the toast
  \<^verbatim>\<open>No LoRAs selected\<close> of kind \<^verbatim>\<open>warning\<close> and does nothing else; when no selected key
  has metadata it shows the warning \<^verbatim>\<open>Missing data for n LoRAs\<close> and then the toast
  \<^verbatim>\<open>No valid LoRAs to copy\<close> of kind \<^verbatim>\<open>error\<close>. In both cases the clipboard is not
  written.
\<close>

theorem copy_nothing_to_copy:
  "(selectedLoras s = [] \<longrightarrow>
      copyAllLorasSyntax parse num_str clipboard_ok s =
        Inr (s\<lparr>toasts := toasts s @ [(NoLorasSelected, Warning)]\<rparr>)) \<and>
   (selectedLoras s \<noteq> [] \<and> (\<forall>k \<in> set (selectedLoras s). loraMetadataCache s k = None) \<longrightarrow>
      copyAllLorasSyntax parse num_str clipboard_ok s =
        Inr (s\<lparr>toasts := toasts s @ [(MissingDataFor (length (selectedLoras s)), Warning),
                                         (NoValidLoras, Error)]\<rparr>))"
  by (simp add: copyAllLorasSyntax_def showToast_def collect_all_missing)

theorem copy_nothing_to_copy_witness:
  "copyAllLorasSyntax example_parse example_num_str True (example_selection [] Map.empty) =
     Inr ((example_selection [] Map.empty)\<lparr>toasts := [(NoLorasSelected, Warning)]\<rparr>) \<and>
   copyAllLorasSyntax example_parse example_num_str True (example_selection [''A'', ''B''] Map.empty) =
     Inr ((example_selection [''A'', ''B''] Map.empty)
            \<lparr>toasts := [(MissingDataFor 2, Warning), (NoValidLoras, Error)]\<rparr>)"
  using copy_nothing_to_copy [of "example_selection [] Map.empty" example_parse example_num_str True]
    copy_nothing_to_copy [of "example_selection [''A'', ''B''] Map.empty"
      example_parse example_num_str True]
  by (simp add: example_selection_def example_page_def)




text \<open>
  C10. When the usage hint of a selected key parses to an object whose \<^verbatim>\<open>strength\<close> is
  falsy (\<^verbatim>\<open>0\<close>, \<^verbatim>\<open>""\<close>, \<^verbatim>\<open>false\<close>, \<^verbatim>\<open>null\<close>), the token of that key has strength 1: that
  is what the loop of \<^verbatim>\<open>copyAllLorasSyntax\<close> pushes for the key.
\<close>

theorem copy_falsy_strength_is_one:
  assumes "cache k = Some m"
    and "usageTips m = Some u" and "u \<noteq> []"
    and "parse u = Inr (JObj kvs)"
    and "map_of kvs ''strength'' = Some x"
    and "\<not> truthy x"
  shows "lora_syntax parse num_str m = Inr (''<lora:'' @ fileName m @ '':'' @ num_str 1 @ ''>'') \<and>
         collect_syntaxes parse num_str cache (k # ks) syn miss =
         collect_syntaxes parse num_str cache ks
           (syn @ [''<lora:'' @ fileName m @ '':'' @ num_str 1 @ ''>'']) miss"
  using assms by (simp add: lora_syntax_def)

theorem copy_falsy_strength_is_one_witness:
  \<open>copyAllLorasSyntax example_parse example_num_str True
     (example_selection [''A''] [''A'' \<mapsto> example_metadata (Some ''{"strength":0}'')]) =
   Inr ((example_selection [''A''] [''A'' \<mapsto> example_metadata (Some ''{"strength":0}'')])
          \<lparr>toasts := [(CopiedSyntaxes 1, Success)], clipboard := [''<lora:foo:1>'']\<rparr>)\<close>
  using copy_falsy_strength_is_one [where
      cache = \<open>[''A'' \<mapsto> example_metadata (Some ''{"strength":0}'')]\<close> and k = "''A''"
      and m = \<open>example_metadata (Some ''{"strength":0}'')\<close> and u = \<open>''{"strength":0}''\<close>
      and parse = example_parse and kvs = "[(''strength'', JNum 0)]" and x = "JNum 0"
      and num_str = example_num_str and ks = "[]" and syn = "[]" and miss = "[]"]
  by (simp add: copyAllLorasSyntax_def showToast_def example_selection_def example_page_def
      example_metadata_def example_parse_def example_num_str_def)

section \<open>Properties of the filter managers\<close>

subsection \<open>What each step leaves alone\<close>

lemma outcome_bind_preserves:
  assumes "P (state_of x)" and "\<And>s2. P s2 \<Longrightarrow> P (state_of (h s2))"
  shows "P (state_of (case x of Raised e s2 \<Rightarrow> Raised e s2 | Returned s2 \<Rightarrow> h s2))"
  using assms by (cases x) simp_all

lemma frame_updateTagSelections [simp]:
  "filters (state_of (updateTagSelections s)) = filters s"
  "localStorage (state_of (updateTagSelections s)) = localStorage s"
  "reloads (state_of (updateTagSelections s)) = reloads s"
  "currentPage (state_of (updateTagSelections s)) = currentPage s"
  by (simp_all add: updateTagSelections_def split: sum.splits)

lemma updateActiveFiltersCount_result:
  "updateActiveFiltersCount num_str str_num s = Inr s' \<Longrightarrow> \<exists>c. s' = s\<lparr>activeFiltersCount := c\<rparr>"
  by (auto simp: updateActiveFiltersCount_def Let_def split: sum.splits if_splits)

lemma updateActiveFiltersCount_arrays:
  "baseModel (filters s) = JArr bs \<Longrightarrow> tags (filters s) = JArr ts \<Longrightarrow>
   \<exists>c. updateActiveFiltersCount num_str str_num s = Inr (s\<lparr>activeFiltersCount := c\<rparr>)"
  by (cases "greater_than_zero str_num (js_plus num_str str_num
        (Some (JNum (of_nat (length bs)))) (Some (JNum (of_nat (length ts)))))")
     (auto simp: updateActiveFiltersCount_def Let_def)

lemma show_filter_result_state:
  "\<exists>b t. state_of (show_filter_result num_str str_num flag s) =
     s\<lparr>filterButton_active := b, filter_toasts := t\<rparr>"
proof -
  have keep: "\<exists>b t. s = s\<lparr>filterButton_active := b, filter_toasts := t\<rparr>"
    by (rule exI [of _ "filterButton_active s"], rule exI [of _ "filter_toasts s"]) simp
  have btn: "\<And>b. \<exists>b' t. s\<lparr>filterButton_active := b\<rparr> =
      s\<lparr>filterButton_active := b', filter_toasts := t\<rparr>"
    by (rule exI, rule exI [of _ "filter_toasts s"]) simp
  have both: "\<And>b m. \<exists>b' t. filter_toast m Success (s\<lparr>filterButton_active := b\<rparr>) =
      s\<lparr>filterButton_active := b', filter_toasts := t\<rparr>"
    "\<And>b m. \<exists>b' t. filter_toast m Info (s\<lparr>filterButton_active := b\<rparr>) =
      s\<lparr>filterButton_active := b', filter_toasts := t\<rparr>"
    unfolding filter_toast_def by (simp_all, (intro exI, rule refl)+)
  show ?thesis
  proof (cases "hasActiveFilters num_str str_num s")
    case (Inl e)
    then show ?thesis using keep by (simp add: show_filter_result_def)
  next
    case (Inr h)
    show ?thesis
    proof (cases h)
      case False
      then show ?thesis
        using Inr btn both by (simp add: show_filter_result_def Let_def)
    next
      case True
      show ?thesis
      proof (cases flag)
        case False
        then show ?thesis
          using Inr True btn by (simp add: show_filter_result_def Let_def)
      next
        case flag: True
        show ?thesis
        proof (cases "js_length (baseModel (filters s))")
          case (Inl e)
          then show ?thesis
            using Inr True flag btn by (simp add: show_filter_result_def Let_def)
        next
          case b: (Inr bc)
          show ?thesis
          proof (cases "js_length (tags (filters s))")
            case (Inl e)
            then show ?thesis
              using Inr True flag b btn by (simp add: show_filter_result_def Let_def)
          next
            case t: (Inr tc)
            show ?thesis
              using Inr True flag b t both by (simp add: show_filter_result_def Let_def)
          qed
        qed
      qed
    qed
  qed
qed


lemma frame_show_filter_result [simp]:
  "filters (state_of (show_filter_result num_str str_num flag s)) = filters s"
  "localStorage (state_of (show_filter_result num_str str_num flag s)) = localStorage s"
  "reloads (state_of (show_filter_result num_str str_num flag s)) = reloads s"
  "currentPage (state_of (show_filter_result num_str str_num flag s)) = currentPage s"
  "tag_filters (state_of (show_filter_result num_str str_num flag s)) = tag_filters s"
  "base_model_tags (state_of (show_filter_result num_str str_num flag s)) = base_model_tags s"
  "recipeManager (state_of (show_filter_result num_str str_num flag s)) = recipeManager s"
  "checkpointManager (state_of (show_filter_result num_str str_num flag s)) = checkpointManager s"
  "reload_fails (state_of (show_filter_result num_str str_num flag s)) = reload_fails s"
proof -
  obtain b t where "state_of (show_filter_result num_str str_num flag s) =
      s\<lparr>filterButton_active := b, filter_toasts := t\<rparr>"
    using show_filter_result_state by blast
  then show
    "filters (state_of (show_filter_result num_str str_num flag s)) = filters s"
    "localStorage (state_of (show_filter_result num_str str_num flag s)) = localStorage s"
    "reloads (state_of (show_filter_result num_str str_num flag s)) = reloads s"
    "currentPage (state_of (show_filter_result num_str str_num flag s)) = currentPage s"
    "tag_filters (state_of (show_filter_result num_str str_num flag s)) = tag_filters s"
    "base_model_tags (state_of (show_filter_result num_str str_num flag s)) = base_model_tags s"
    "recipeManager (state_of (show_filter_result num_str str_num flag s)) = recipeManager s"
    "checkpointManager (state_of (show_filter_result num_str str_num flag s)) = checkpointManager s"
    "reload_fails (state_of (show_filter_result num_str str_num flag s)) = reload_fails s"
    by simp_all
qed

lemma frame_call_reload [simp]:
  "filters (state_of (call_reload s)) = filters s"
  "localStorage (state_of (call_reload s)) = localStorage s"
  "currentPage (state_of (call_reload s)) = currentPage s"
  "tag_filters (state_of (call_reload s)) = tag_filters s"
  "base_model_tags (state_of (call_reload s)) = base_model_tags s"
  "recipeManager (state_of (call_reload s)) = recipeManager s"
  "checkpointManager (state_of (call_reload s)) = checkpointManager s"
  "reload_fails (state_of (call_reload s)) = reload_fails s"
  "reloads (state_of (call_reload s)) =
     (case reload_for_page s of None \<Rightarrow> reloads s | Some c \<Rightarrow> reloads s @ [c])"
  by (simp_all add: call_reload_def split: option.splits)

lemma reload_for_page_cong:
  "currentPage a = currentPage b \<Longrightarrow> recipeManager a = recipeManager b \<Longrightarrow>
   checkpointManager a = checkpointManager b \<Longrightarrow> reload_for_page a = reload_for_page b"
  by (simp add: reload_for_page_def)

lemma frame_applyFilters [simp]:
  "filters (state_of (applyFilters stringify num_str str_num b s)) = filters s"
  "currentPage (state_of (applyFilters stringify num_str str_num b s)) = currentPage s"
  "tag_filters (state_of (applyFilters stringify num_str str_num b s)) = tag_filters s"
  "base_model_tags (state_of (applyFilters stringify num_str str_num b s)) = base_model_tags s"
  "recipeManager (state_of (applyFilters stringify num_str str_num b s)) = recipeManager s"
  "checkpointManager (state_of (applyFilters stringify num_str str_num b s)) = checkpointManager s"
  "reload_fails (state_of (applyFilters stringify num_str str_num b s)) = reload_fails s"
  "localStorage (state_of (applyFilters stringify num_str str_num b s)) =
     (localStorage s)(currentPage s @ ''_filters'' \<mapsto> stringify (filters_object (filters s)))"
  "reloads (state_of (applyFilters stringify num_str str_num b s)) =
     (case reload_for_page s of None \<Rightarrow> reloads s | Some c \<Rightarrow> reloads s @ [c])"
proof -
  let ?s1 = "s\<lparr>localStorage := (localStorage s)
                    (currentPage s @ ''_filters'' \<mapsto> stringify (filters_object (filters s))),
                  page_filters := Some (filters s)\<rparr>"
  have r: "reload_for_page ?s1 = reload_for_page s"
    by (simp add: reload_for_page_def)
  have *: "\<And>P. P (state_of (call_reload ?s1)) \<Longrightarrow>
     (\<And>s2. P s2 \<Longrightarrow> P (state_of (show_filter_result num_str str_num b s2))) \<Longrightarrow>
     P (state_of (applyFilters stringify num_str str_num b s))"
    unfolding applyFilters_def Let_def by (rule outcome_bind_preserves)
  show "filters (state_of (applyFilters stringify num_str str_num b s)) = filters s"
    by (rule * [where P = "\<lambda>x. filters x = filters s"]) simp_all
  show "currentPage (state_of (applyFilters stringify num_str str_num b s)) = currentPage s"
    by (rule * [where P = "\<lambda>x. currentPage x = currentPage s"]) simp_all
  show "tag_filters (state_of (applyFilters stringify num_str str_num b s)) = tag_filters s"
    by (rule * [where P = "\<lambda>x. tag_filters x = tag_filters s"]) simp_all
  show "base_model_tags (state_of (applyFilters stringify num_str str_num b s)) = base_model_tags s"
    by (rule * [where P = "\<lambda>x. base_model_tags x = base_model_tags s"]) simp_all
  show "recipeManager (state_of (applyFilters stringify num_str str_num b s)) = recipeManager s"
    by (rule * [where P = "\<lambda>x. recipeManager x = recipeManager s"]) simp_all
  show "checkpointManager (state_of (applyFilters stringify num_str str_num b s)) = checkpointManager s"
    by (rule * [where P = "\<lambda>x. checkpointManager x = checkpointManager s"]) simp_all
  show "reload_fails (state_of (applyFilters stringify num_str str_num b s)) = reload_fails s"
    by (rule * [where P = "\<lambda>x. reload_fails x = reload_fails s"]) simp_all
  show "localStorage (state_of (applyFilters stringify num_str str_num b s)) =
     (localStorage s)(currentPage s @ ''_filters'' \<mapsto> stringify (filters_object (filters s)))"
    by (rule * [where P = "\<lambda>x. localStorage x =
       (localStorage s)(currentPage s @ ''_filters'' \<mapsto> stringify (filters_object (filters s)))"])
       simp_all
  show "reloads (state_of (applyFilters stringify num_str str_num b s)) =
     (case reload_for_page s of None \<Rightarrow> reloads s | Some c \<Rightarrow> reloads s @ [c])"
    by (rule * [where P = "\<lambda>x. reloads x =
       (case reload_for_page s of None \<Rightarrow> reloads s | Some c \<Rightarrow> reloads s @ [c])"])
       (simp_all add: r split: option.splits)
qed

lemma filters_load_parsed:
  assumes "get_prop p ''baseModel'' = Inr b" "get_prop p ''tags'' = Inr t"
  shows "filters (load_parsed num_str str_num w p s) =
           \<lparr>baseModel = or_else b (JArr []), tags = or_else t (JArr [])\<rparr>"
proof -
  let ?f = "\<lparr>baseModel = or_else b (JArr []), tags = or_else t (JArr [])\<rparr>"
  let ?s1 = "if w then s\<lparr>filters := ?f, page_filters := Some ?f\<rparr> else s\<lparr>filters := ?f\<rparr>"
  have 1: "filters (state_of (updateTagSelections ?s1)) = ?f" by simp
  show ?thesis
  proof (cases "updateTagSelections ?s1")
    case (Raised e s2)
    then show ?thesis using assms 1 by (simp add: load_parsed_def Let_def)
  next
    case (Returned s2)
    then have f2: "filters s2 = ?f" using 1 by simp
    show ?thesis
    proof (cases "updateActiveFiltersCount num_str str_num s2")
      case (Inl e)
      then show ?thesis using assms Returned f2 by (simp add: load_parsed_def Let_def)
    next
      case (Inr s3)
      then obtain c where "s3 = s2\<lparr>activeFiltersCount := c\<rparr>"
        using updateActiveFiltersCount_result by blast
      then have "filters s3 = ?f" using f2 by simp
      then show ?thesis
        using assms Returned Inr
        by (cases "hasActiveFilters num_str str_num s3") (simp_all add: load_parsed_def Let_def)
    qed
  qed
qed

lemma tag_array_or_else: "field_ok p \<Longrightarrow> tag_array (or_else p (JArr []))"
  by (cases p) (auto simp: field_ok_def tag_array_def)

lemma toggle_in_field_ok:
  "tag_array v \<Longrightarrow> \<exists>v'. toggle_in_field a v t = Inr v' \<and> tag_array v'"
  by (cases v) (auto simp: toggle_in_field_def tag_array_def)

lemma tag_array_is_array: "tag_array v \<Longrightarrow> \<exists>xs. v = JArr xs"
  by (cases v) (simp_all add: tag_array_def)

lemma load_parsed_ok:
  assumes "criteria_ok (filters s)"
    and "case get_prop p ''baseModel'' of
                  Inl e \<Rightarrow> True
                | Inr b \<Rightarrow> (case get_prop p ''tags'' of
                              Inl e \<Rightarrow> True
                            | Inr t \<Rightarrow> field_ok b \<and> field_ok t)"
  shows "criteria_ok (filters (load_parsed num_str str_num w p s))"
proof (cases "get_prop p ''baseModel''")
  case (Inl e)
  then show ?thesis using assms by (simp add: load_parsed_def)
next
  case b: (Inr b)
  show ?thesis
  proof (cases "get_prop p ''tags''")
    case (Inl e)
    then show ?thesis using assms b by (simp add: load_parsed_def)
  next
    case t: (Inr t)
    show ?thesis
      using assms(2) by (simp add: filters_load_parsed [OF b t] b t criteria_ok_def tag_array_or_else)
  qed
qed

lemma loadFiltersFromStorage_ok:
  "criteria_ok (filters s) \<Longrightarrow> stored_ok parse (localStorage s (currentPage s @ ''_filters'')) \<Longrightarrow>
   criteria_ok (filters (loadFiltersFromStorage parse num_str str_num s))"
  by (auto simp: loadFiltersFromStorage_def stored_ok_def load_parsed_ok split: option.splits sum.splits)

lemma recipe_loadFiltersFromStorage_ok:
  "criteria_ok (filters s) \<Longrightarrow> stored_ok parse (localStorage s ''recipeFilters'') \<Longrightarrow>
   criteria_ok (filters (recipe_loadFiltersFromStorage parse num_str str_num s))"
  by (auto simp: recipe_loadFiltersFromStorage_def stored_ok_def load_parsed_ok split: option.splits sum.splits)

lemma criteria_ok_empty [simp]: "criteria_ok empty_filters"
  by (simp add: criteria_ok_def empty_filters_def tag_array_def)

lemma frame_applyFiltersByPageReload [simp]:
  "filters (state_of (applyFiltersByPageReload num_str str_num s)) = filters s"
  "localStorage (state_of (applyFiltersByPageReload num_str str_num s)) = localStorage s"
  by (simp_all add: applyFiltersByPageReload_def split: sum.splits)

lemma frame_recipe_applyFilters [simp]:
  "filters (state_of (recipe_applyFilters stringify num_str str_num b s)) = filters s"
  "localStorage (state_of (recipe_applyFilters stringify num_str str_num b s)) =
     (localStorage s)(''recipeFilters'' \<mapsto> stringify (filters_object (filters s)))"
  unfolding recipe_applyFilters_def Let_def
  by (rule outcome_bind_preserves [where P = "\<lambda>x. filters x = filters s"], simp, simp,
      rule outcome_bind_preserves [where P = "\<lambda>x. localStorage x =
        (localStorage s)(''recipeFilters'' \<mapsto> stringify (filters_object (filters s)))"], simp, simp)

lemma filters_clearFilters [simp]:
  "filters (state_of (clearFilters num_str str_num s)) = empty_filters"
proof -
  let ?s1 = "s\<lparr>filters := empty_filters, page_filters := Some empty_filters\<rparr>"
  have 1: "filters (state_of (updateTagSelections ?s1)) = empty_filters" by simp
  show ?thesis
  proof (cases "updateTagSelections ?s1")
    case (Raised e s2)
    then show ?thesis using 1 by (simp add: clearFilters_def Let_def)
  next
    case (Returned s2)
    then have f2: "filters s2 = empty_filters" using 1 by simp
    show ?thesis
    proof (cases "updateActiveFiltersCount num_str str_num s2")
      case (Inl e)
      then show ?thesis using Returned f2 by (simp add: clearFilters_def Let_def)
    next
      case (Inr s3)
      then obtain c where s3: "s3 = s2\<lparr>activeFiltersCount := c\<rparr>"
        using updateActiveFiltersCount_result by blast
      let ?s4 = "s3\<lparr>localStorage := (localStorage s3)(currentPage s3 @ ''_filters'' := None),
                     filterButton_active := False\<rparr>"
      have "filters (state_of (call_reload ?s4)) = empty_filters"
        by (simp add: s3 f2)
      then show ?thesis
        using Returned Inr
        by (cases "call_reload ?s4") (simp_all add: clearFilters_def Let_def filter_toast_def)
    qed
  qed
qed

lemma filters_recipe_clearFilters [simp]:
  "filters (state_of (recipe_clearFilters num_str str_num s)) = empty_filters"
proof -
  let ?s1 = "s\<lparr>filters := empty_filters\<rparr>"
  have 1: "filters (state_of (updateTagSelections ?s1)) = empty_filters" by simp
  show ?thesis
  proof (cases "updateTagSelections ?s1")
    case (Raised e s2)
    then show ?thesis using 1 by (simp add: recipe_clearFilters_def Let_def)
  next
    case (Returned s2)
    then have f2: "filters s2 = empty_filters" using 1 by simp
    show ?thesis
    proof (cases "updateActiveFiltersCount num_str str_num s2")
      case (Inl e)
      then show ?thesis using Returned f2 by (simp add: recipe_clearFilters_def Let_def)
    next
      case (Inr s3)
      then obtain c where s3: "s3 = s2\<lparr>activeFiltersCount := c\<rparr>"
        using updateActiveFiltersCount_result by blast
      show ?thesis
        using Returned Inr
        by (simp add: recipe_clearFilters_def Let_def filter_toast_def s3 f2)
    qed
  qed
qed

text \<open>A click while both fields are arrays reaches \<^verbatim>\<open>applyFilters\<close>.\<close>

lemma tag_click_arrays:
  assumes "i < length (tag_filters s)"
    and "baseModel (filters s) = JArr bs"
    and "toggle_in_field (\<not> active (tag_filters s ! i)) (tags (filters s))
           (tag_name (tag_filters s ! i)) = Inr (JArr ts)"
  shows "\<exists>c. tag_click stringify num_str str_num i s =
           applyFilters stringify num_str str_num False
             (s\<lparr>tag_filters := (tag_filters s)
                    [i := (tag_filters s ! i)\<lparr>active := \<not> active (tag_filters s ! i)\<rparr>],
                filters := (filters s)\<lparr>tags := JArr ts\<rparr>,
                activeFiltersCount := c\<rparr>)"
proof -
  let ?s2 = "s\<lparr>tag_filters := (tag_filters s)
                    [i := (tag_filters s ! i)\<lparr>active := \<not> active (tag_filters s ! i)\<rparr>],
                filters := (filters s)\<lparr>tags := JArr ts\<rparr>\<rparr>"
  obtain c where "updateActiveFiltersCount num_str str_num ?s2 = Inr (?s2\<lparr>activeFiltersCount := c\<rparr>)"
    using updateActiveFiltersCount_arrays [of ?s2 bs ts] assms(2) by auto
  then show ?thesis
    using assms by (auto simp: tag_click_def Let_def)
qed

lemma base_model_click_arrays:
  assumes "i < length (base_model_tags s)"
    and "tags (filters s) = JArr ts"
    and "toggle_in_field (\<not> active (base_model_tags s ! i)) (baseModel (filters s))
           (tag_name (base_model_tags s ! i)) = Inr (JArr bs)"
  shows "\<exists>c. base_model_click stringify num_str str_num i s =
           applyFilters stringify num_str str_num False
             (s\<lparr>base_model_tags := (base_model_tags s)
                    [i := (base_model_tags s ! i)\<lparr>active := \<not> active (base_model_tags s ! i)\<rparr>],
                filters := (filters s)\<lparr>baseModel := JArr bs\<rparr>,
                activeFiltersCount := c\<rparr>)"
proof -
  let ?s2 = "s\<lparr>base_model_tags := (base_model_tags s)
                    [i := (base_model_tags s ! i)\<lparr>active := \<not> active (base_model_tags s ! i)\<rparr>],
                filters := (filters s)\<lparr>baseModel := JArr bs\<rparr>\<rparr>"
  obtain c where "updateActiveFiltersCount num_str str_num ?s2 = Inr (?s2\<lparr>activeFiltersCount := c\<rparr>)"
    using updateActiveFiltersCount_arrays [of ?s2 bs ts] assms(2) by auto
  then show ?thesis
    using assms by (auto simp: base_model_click_def Let_def)
qed

lemma recipe_tag_click_arrays:
  assumes "i < length (tag_filters s)"
    and "baseModel (filters s) = JArr bs"
    and "toggle_in_field (\<not> active (tag_filters s ! i)) (tags (filters s))
           (tag_name (tag_filters s ! i)) = Inr (JArr ts)"
  shows "\<exists>c. recipe_tag_click stringify num_str str_num i s =
           recipe_applyFilters stringify num_str str_num False
             (s\<lparr>tag_filters := (tag_filters s)
                    [i := (tag_filters s ! i)\<lparr>active := \<not> active (tag_filters s ! i)\<rparr>],
                filters := (filters s)\<lparr>tags := JArr ts\<rparr>,
                activeFiltersCount := c\<rparr>)"
proof -
  let ?s2 = "s\<lparr>tag_filters := (tag_filters s)
                    [i := (tag_filters s ! i)\<lparr>active := \<not> active (tag_filters s ! i)\<rparr>],
                filters := (filters s)\<lparr>tags := JArr ts\<rparr>\<rparr>"
  obtain c where "updateActiveFiltersCount num_str str_num ?s2 = Inr (?s2\<lparr>activeFiltersCount := c\<rparr>)"
    using updateActiveFiltersCount_arrays [of ?s2 bs ts] assms(2) by auto
  then show ?thesis
    using assms by (auto simp: recipe_tag_click_def Let_def)
qed

lemma recipe_base_model_click_arrays:
  assumes "i < length (base_model_tags s)"
    and "tags (filters s) = JArr ts"
    and "toggle_in_field (\<not> active (base_model_tags s ! i)) (baseModel (filters s))
           (tag_name (base_model_tags s ! i)) = Inr (JArr bs)"
  shows "\<exists>c. recipe_base_model_click stringify num_str str_num i s =
           recipe_applyFilters stringify num_str str_num False
             (s\<lparr>base_model_tags := (base_model_tags s)
                    [i := (base_model_tags s ! i)\<lparr>active := \<not> active (base_model_tags s ! i)\<rparr>],
                filters := (filters s)\<lparr>baseModel := JArr bs\<rparr>,
                activeFiltersCount := c\<rparr>)"
proof -
  let ?s2 = "s\<lparr>base_model_tags := (base_model_tags s)
                    [i := (base_model_tags s ! i)\<lparr>active := \<not> active (base_model_tags s ! i)\<rparr>],
                filters := (filters s)\<lparr>baseModel := JArr bs\<rparr>\<rparr>"
  obtain c where "updateActiveFiltersCount num_str str_num ?s2 = Inr (?s2\<lparr>activeFiltersCount := c\<rparr>)"
    using updateActiveFiltersCount_arrays [of ?s2 bs ts] assms(2) by auto
  then show ?thesis
    using assms by (auto simp: recipe_base_model_click_def Let_def)
qed

lemma tag_click_ok:
  assumes "criteria_ok (filters s)"
  shows "criteria_ok (filters (state_of (tag_click stringify num_str str_num i s)))"
proof (cases "i < length (tag_filters s)")
  case False
  then show ?thesis using assms by (simp add: tag_click_def)
next
  case True
  let ?el = "tag_filters s ! i"
  from assms have ta: "tag_array (tags (filters s))" and ba: "tag_array (baseModel (filters s))"
    by (simp_all add: criteria_ok_def)
  from toggle_in_field_ok [OF ta, of "\<not> active ?el" "tag_name ?el"]
  obtain v' where v': "toggle_in_field (\<not> active ?el) (tags (filters s)) (tag_name ?el) = Inr v'"
    and ok: "tag_array v'" by blast
  obtain ts bs where ts: "v' = JArr ts" and bs: "baseModel (filters s) = JArr bs"
    using tag_array_is_array ok ba by blast
  obtain c where "tag_click stringify num_str str_num i s =
           applyFilters stringify num_str str_num False
             (s\<lparr>tag_filters := (tag_filters s)[i := ?el\<lparr>active := \<not> active ?el\<rparr>],
                filters := (filters s)\<lparr>tags := JArr ts\<rparr>,
                activeFiltersCount := c\<rparr>)"
    using tag_click_arrays [OF True bs v' [unfolded ts]] by blast
  then show ?thesis
    using ok ba by (simp add: criteria_ok_def ts)
qed

lemma base_model_click_ok:
  assumes "criteria_ok (filters s)"
  shows "criteria_ok (filters (state_of (base_model_click stringify num_str str_num i s)))"
proof (cases "i < length (base_model_tags s)")
  case False
  then show ?thesis using assms by (simp add: base_model_click_def)
next
  case True
  let ?el = "base_model_tags s ! i"
  from assms have ta: "tag_array (tags (filters s))" and ba: "tag_array (baseModel (filters s))"
    by (simp_all add: criteria_ok_def)
  from toggle_in_field_ok [OF ba, of "\<not> active ?el" "tag_name ?el"]
  obtain v' where v': "toggle_in_field (\<not> active ?el) (baseModel (filters s)) (tag_name ?el) = Inr v'"
    and ok: "tag_array v'" by blast
  obtain bs ts where bs: "v' = JArr bs" and ts: "tags (filters s) = JArr ts"
    using tag_array_is_array ok ta by blast
  obtain c where "base_model_click stringify num_str str_num i s =
           applyFilters stringify num_str str_num False
             (s\<lparr>base_model_tags := (base_model_tags s)[i := ?el\<lparr>active := \<not> active ?el\<rparr>],
                filters := (filters s)\<lparr>baseModel := JArr bs\<rparr>,
                activeFiltersCount := c\<rparr>)"
    using base_model_click_arrays [OF True ts v' [unfolded bs]] by blast
  then show ?thesis
    using ok ta by (simp add: criteria_ok_def bs)
qed

lemma recipe_tag_click_ok:
  assumes "criteria_ok (filters s)"
  shows "criteria_ok (filters (state_of (recipe_tag_click stringify num_str str_num i s)))"
proof (cases "i < length (tag_filters s)")
  case False
  then show ?thesis using assms by (simp add: recipe_tag_click_def)
next
  case True
  let ?el = "tag_filters s ! i"
  from assms have ta: "tag_array (tags (filters s))" and ba: "tag_array (baseModel (filters s))"
    by (simp_all add: criteria_ok_def)
  from toggle_in_field_ok [OF ta, of "\<not> active ?el" "tag_name ?el"]
  obtain v' where v': "toggle_in_field (\<not> active ?el) (tags (filters s)) (tag_name ?el) = Inr v'"
    and ok: "tag_array v'" by blast
  obtain ts bs where ts: "v' = JArr ts" and bs: "baseModel (filters s) = JArr bs"
    using tag_array_is_array ok ba by blast
  obtain c where "recipe_tag_click stringify num_str str_num i s =
           recipe_applyFilters stringify num_str str_num False
             (s\<lparr>tag_filters := (tag_filters s)[i := ?el\<lparr>active := \<not> active ?el\<rparr>],
                filters := (filters s)\<lparr>tags := JArr ts\<rparr>,
                activeFiltersCount := c\<rparr>)"
    using recipe_tag_click_arrays [OF True bs v' [unfolded ts]] by blast
  then show ?thesis
    using ok ba by (simp add: criteria_ok_def ts)
qed

lemma recipe_base_model_click_ok:
  assumes "criteria_ok (filters s)"
  shows "criteria_ok (filters (state_of (recipe_base_model_click stringify num_str str_num i s)))"
proof (cases "i < length (base_model_tags s)")
  case False
  then show ?thesis using assms by (simp add: recipe_base_model_click_def)
next
  case True
  let ?el = "base_model_tags s ! i"
  from assms have ta: "tag_array (tags (filters s))" and ba: "tag_array (baseModel (filters s))"
    by (simp_all add: criteria_ok_def)
  from toggle_in_field_ok [OF ba, of "\<not> active ?el" "tag_name ?el"]
  obtain v' where v': "toggle_in_field (\<not> active ?el) (baseModel (filters s)) (tag_name ?el) = Inr v'"
    and ok: "tag_array v'" by blast
  obtain bs ts where bs: "v' = JArr bs" and ts: "tags (filters s) = JArr ts"
    using tag_array_is_array ok ta by blast
  obtain c where "recipe_base_model_click stringify num_str str_num i s =
           recipe_applyFilters stringify num_str str_num False
             (s\<lparr>base_model_tags := (base_model_tags s)[i := ?el\<lparr>active := \<not> active ?el\<rparr>],
                filters := (filters s)\<lparr>baseModel := JArr bs\<rparr>,
                activeFiltersCount := c\<rparr>)"
    using recipe_base_model_click_arrays [OF True ts v' [unfolded bs]] by blast
  then show ?thesis
    using ok ta by (simp add: criteria_ok_def bs)
qed

lemma reload_for_page_applyFilters [simp]:
  "reload_for_page (state_of (applyFilters stringify num_str str_num b s)) = reload_for_page s"
  by (rule reload_for_page_cong) simp_all




lemma frame_recipe_applyFilters_more [simp]:
  "tag_filters (state_of (recipe_applyFilters stringify num_str str_num b s)) = tag_filters s"
  "base_model_tags (state_of (recipe_applyFilters stringify num_str str_num b s)) = base_model_tags s"
  "recipeManager (state_of (recipe_applyFilters stringify num_str str_num b s)) = recipeManager s"
  "reload_fails (state_of (recipe_applyFilters stringify num_str str_num b s)) = reload_fails s"
proof -
  have *: "\<And>P. P s \<Longrightarrow> (\<And>x l. P x \<Longrightarrow> P (x\<lparr>localStorage := l\<rparr>)) \<Longrightarrow>
      (\<And>x r. P x \<Longrightarrow> P (x\<lparr>reloads := r\<rparr>)) \<Longrightarrow>
      (\<And>x. P x \<Longrightarrow> P (state_of (show_filter_result num_str str_num b x))) \<Longrightarrow>
      P (state_of (recipe_applyFilters stringify num_str str_num b s))"
    unfolding recipe_applyFilters_def Let_def
    by (rule outcome_bind_preserves)
       (auto simp: applyFiltersByPageReload_def split: sum.splits)
  show "tag_filters (state_of (recipe_applyFilters stringify num_str str_num b s)) = tag_filters s"
    by (rule * [where P = "\<lambda>x. tag_filters x = tag_filters s"]) simp_all
  show "base_model_tags (state_of (recipe_applyFilters stringify num_str str_num b s)) = base_model_tags s"
    by (rule * [where P = "\<lambda>x. base_model_tags x = base_model_tags s"]) simp_all
  show "recipeManager (state_of (recipe_applyFilters stringify num_str str_num b s)) = recipeManager s"
    by (rule * [where P = "\<lambda>x. recipeManager x = recipeManager s"]) simp_all
  show "reload_fails (state_of (recipe_applyFilters stringify num_str str_num b s)) = reload_fails s"
    by (rule * [where P = "\<lambda>x. reload_fails x = reload_fails s"]) simp_all
qed

subsection \<open>Toggling a tag\<close>





text \<open>
  The other field has to be an array for the click to get that far: on a field that is
  \<^verbatim>\<open>null\<close> the handler toggles the class and the tag and then raises TypeError in
  \<^verbatim>\<open>updateActiveFiltersCount\<close>, before anything is stored or reloaded.
\<close>

lemma tag_click_null_field:
  "tag_click example_stringify example_num_str example_str_num 0
     ((example_listing Map.empty)\<lparr>filters := \<lparr>baseModel = JNull, tags = JArr []\<rparr>\<rparr>) =
   Raised TypeError
     ((example_listing Map.empty)
        \<lparr>filters := \<lparr>baseModel = JNull, tags = JArr [JStr ''sci-fi'']\<rparr>,
         tag_filters := [\<lparr>tag_name = ''sci-fi'', active = True\<rparr>]\<rparr>)"
  by (simp add: tag_click_def example_listing_def toggle_in_field_def Let_def
      updateActiveFiltersCount_def)




subsection \<open>Storing and loading the criteria\<close>

lemma get_prop_filters_object:
  "get_prop (filters_object f) ''baseModel'' = Inr (Some (baseModel f))"
  "get_prop (filters_object f) ''tags'' = Inr (Some (tags f))"
  by (simp_all add: filters_object_def)

text \<open>
  C4. Let \<^verbatim>\<open>JSON.parse\<close> give back the filter object that \<^verbatim>\<open>JSON.stringify\<close> wrote, as
  a non-empty text, and let both fields be truthy, as every array is. Then after
  \<^verbatim>\<open>applyFilters\<close>, a manager constructed for the same page on any state of the page
  that has the storage \<^verbatim>\<open>applyFilters\<close> left holds the criteria that were applied. The
  same holds for the RecipeFilterManager and its key.
\<close>

theorem applyFilters_roundtrip:
  assumes codec: "parse (stringify (filters_object (filters s))) = Inr (filters_object (filters s))"
    and nonempty: "stringify (filters_object (filters s)) \<noteq> []"
    and arrays: "truthy (baseModel (filters s))" "truthy (tags (filters s))"
  shows "(localStorage s' = localStorage (state_of (applyFilters stringify num_str str_num b s)) \<and>
          or_string options_page (or_string body_page ''loras'') = currentPage s \<longrightarrow>
            filters (FilterManager parse num_str str_num options_page body_page s') = filters s) \<and>
         (localStorage s' =
            localStorage (state_of (recipe_applyFilters stringify num_str str_num b s)) \<longrightarrow>
            filters (RecipeFilterManager parse num_str str_num s') = filters s)"
  using codec nonempty arrays
  by (simp add: FilterManager_def loadFiltersFromStorage_def RecipeFilterManager_def
      recipe_loadFiltersFromStorage_def filters_load_parsed [OF get_prop_filters_object])

theorem applyFilters_roundtrip_witness:
  \<open>filters (FilterManager example_parse example_num_str example_str_num None None
      (example_listing (localStorage (state_of
         (applyFilters example_stringify example_num_str example_str_num True
            ((example_listing Map.empty)
               \<lparr>filters := \<lparr>baseModel = JArr [], tags = JArr [JStr ''sci-fi'']\<rparr>\<rparr>)))))) =
     \<lparr>baseModel = JArr [], tags = JArr [JStr ''sci-fi'']\<rparr> \<and>
   filters (RecipeFilterManager example_parse example_num_str example_str_num
      (example_listing (localStorage (state_of
         (recipe_applyFilters example_stringify example_num_str example_str_num True
            ((example_listing Map.empty)
               \<lparr>filters := \<lparr>baseModel = JArr [], tags = JArr [JStr ''sci-fi'']\<rparr>\<rparr>)))))) =
     \<lparr>baseModel = JArr [], tags = JArr [JStr ''sci-fi'']\<rparr>\<close>
  using applyFilters_roundtrip [where parse = example_parse and stringify = example_stringify
      and num_str = example_num_str and str_num = example_str_num
      and s = "(example_listing Map.empty)
            \<lparr>filters := \<lparr>baseModel = JArr [], tags = JArr [JStr ''sci-fi'']\<rparr>\<rparr>"
      and s' = "example_listing (localStorage (state_of
         (applyFilters example_stringify example_num_str example_str_num True
            ((example_listing Map.empty)
               \<lparr>filters := \<lparr>baseModel = JArr [], tags = JArr [JStr ''sci-fi'']\<rparr>\<rparr>))))"
      and b = True and options_page = None and body_page = None]
    applyFilters_roundtrip [where parse = example_parse and stringify = example_stringify
      and num_str = example_num_str and str_num = example_str_num
      and s = "(example_listing Map.empty)
            \<lparr>filters := \<lparr>baseModel = JArr [], tags = JArr [JStr ''sci-fi'']\<rparr>\<rparr>"
      and s' = "example_listing (localStorage (state_of
         (recipe_applyFilters example_stringify example_num_str example_str_num True
            ((example_listing Map.empty)
               \<lparr>filters := \<lparr>baseModel = JArr [], tags = JArr [JStr ''sci-fi'']\<rparr>\<rparr>))))"
      and b = True]
  by (simp add: example_listing_def example_parse_def example_stringify_def filters_object_def)

text \<open>
  C6 as stated fails for the FilterManager: its constructor starts from the filters of
  the page state, and on malformed storage \<^verbatim>\<open>loadFiltersFromStorage\<close> leaves them as they
  are, so criteria that are not empty stay.
\<close>

theorem malformed_storage_counterexample:
  "filters (FilterManager example_parse example_num_str example_str_num None None
      ((example_listing [''loras_filters'' \<mapsto> ''not json''])
         \<lparr>page_filters := Some \<lparr>baseModel = JArr [], tags = JArr [JStr ''sci-fi'']\<rparr>\<rparr>)) =
     \<lparr>baseModel = JArr [], tags = JArr [JStr ''sci-fi'']\<rparr> \<and>
   \<lparr>baseModel = JArr [], tags = JArr [JStr ''sci-fi'']\<rparr> \<noteq> empty_filters"
  by (simp add: FilterManager_def loadFiltersFromStorage_def example_listing_def
      example_parse_def empty_filters_def)

text \<open>
  C6, amended. When \<^verbatim>\<open>JSON.parse\<close> rejects what storage holds under the manager's key,
  \<^verbatim>\<open>loadFiltersFromStorage\<close> returns without an exception and changes nothing, so the
  criteria are the ones the constructor set: in a RecipeFilterManager the empty criteria,
  in a FilterManager the filters of the page state, and the empty criteria when the page
  state has none.
\<close>

theorem malformed_storage_keeps_criteria:
  "(localStorage s (or_string options_page (or_string body_page ''loras'') @ ''_filters'') = Some v \<and>
    parse v = Inl e \<longrightarrow>
      filters (FilterManager parse num_str str_num options_page body_page s) =
        (case page_filters s of Some f \<Rightarrow> f | None \<Rightarrow> empty_filters)) \<and>
   (localStorage s (currentPage s @ ''_filters'') = Some v \<and> parse v = Inl e \<longrightarrow>
      loadFiltersFromStorage parse num_str str_num s = s) \<and>
   (localStorage s ''recipeFilters'' = Some v \<and> parse v = Inl e \<longrightarrow>
      filters (RecipeFilterManager parse num_str str_num s) = empty_filters \<and>
      recipe_loadFiltersFromStorage parse num_str str_num s = s)"
  by (auto simp: FilterManager_def loadFiltersFromStorage_def RecipeFilterManager_def
      recipe_loadFiltersFromStorage_def)

theorem malformed_storage_keeps_criteria_witness:
  "filters (FilterManager example_parse example_num_str example_str_num None None
      (example_listing [''loras_filters'' \<mapsto> ''not json''])) = empty_filters \<and>
   filters (FilterManager example_parse example_num_str example_str_num None None
      ((example_listing [''loras_filters'' \<mapsto> ''not json''])
         \<lparr>page_filters := Some \<lparr>baseModel = JArr [], tags = JArr [JStr ''sci-fi'']\<rparr>\<rparr>)) =
     \<lparr>baseModel = JArr [], tags = JArr [JStr ''sci-fi'']\<rparr> \<and>
   loadFiltersFromStorage example_parse example_num_str example_str_num
      (example_listing [''loras_filters'' \<mapsto> ''not json'']) =
     example_listing [''loras_filters'' \<mapsto> ''not json''] \<and>
   filters (RecipeFilterManager example_parse example_num_str example_str_num
      (example_listing [''recipeFilters'' \<mapsto> ''not json''])) = empty_filters"
  using malformed_storage_keeps_criteria [where parse = example_parse and options_page = None
      and body_page = None and s = "example_listing [''loras_filters'' \<mapsto> ''not json'']"
      and v = "''not json''" and e = SyntaxError and num_str = example_num_str
      and str_num = example_str_num]
    malformed_storage_keeps_criteria [where parse = example_parse and options_page = None
      and body_page = None
      and s = "(example_listing [''loras_filters'' \<mapsto> ''not json''])
         \<lparr>page_filters := Some \<lparr>baseModel = JArr [], tags = JArr [JStr ''sci-fi'']\<rparr>\<rparr>"
      and v = "''not json''" and e = SyntaxError and num_str = example_num_str
      and str_num = example_str_num]
    malformed_storage_keeps_criteria [where parse = example_parse
      and s = "example_listing [''recipeFilters'' \<mapsto> ''not json'']"
      and v = "''not json''" and e = SyntaxError and num_str = example_num_str
      and str_num = example_str_num]
  by (simp add: example_listing_def example_parse_def)

subsection \<open>The shape of the criteria\<close>

lemma filters_tag_click:
  assumes "i < length (tag_filters s)"
    and "toggle_in_field (\<not> active (tag_filters s ! i)) (tags (filters s))
           (tag_name (tag_filters s ! i)) = Inr v"
  shows "filters (state_of (tag_click stringify num_str str_num i s)) = (filters s)\<lparr>tags := v\<rparr>"
proof -
  let ?s2 = "s\<lparr>tag_filters := (tag_filters s)
                 [i := (tag_filters s ! i)\<lparr>active := \<not> active (tag_filters s ! i)\<rparr>],
               filters := (filters s)\<lparr>tags := v\<rparr>\<rparr>"
  show ?thesis
  proof (cases "updateActiveFiltersCount num_str str_num ?s2")
    case (Inl e)
    then show ?thesis using assms by (simp add: tag_click_def Let_def)
  next
    case (Inr s3)
    then obtain c where "s3 = ?s2\<lparr>activeFiltersCount := c\<rparr>"
      using updateActiveFiltersCount_result by blast
    then show ?thesis using assms Inr by (simp add: tag_click_def Let_def)
  qed
qed

text \<open>
  C7 as stated fails for \<^verbatim>\<open>loadFiltersFromStorage\<close>, which takes every truthy stored
  field as it is: a stored string becomes the field, and a stored array with a tag twice
  is kept with the tag twice.
\<close>

theorem criteria_ok_counterexample:
  \<open>filters (FilterManager example_parse example_num_str example_str_num None None
      (example_listing [''loras_filters'' \<mapsto> ''{"baseModel":"SDXL","tags":["a","a"]}''])) =
     \<lparr>baseModel = JStr ''SDXL'', tags = JArr [JStr ''a'', JStr ''a'']\<rparr> \<and>
   \<not> criteria_ok (filters (FilterManager example_parse example_num_str example_str_num None None
      (example_listing [''loras_filters'' \<mapsto> ''{"baseModel":"SDXL","tags":["a","a"]}'']))) \<and>
   \<not> criteria_ok (filters (RecipeFilterManager example_parse example_num_str example_str_num
      (example_listing [''recipeFilters'' \<mapsto> ''{"baseModel":"SDXL","tags":["a","a"]}''])))\<close>
  by (simp add: FilterManager_def loadFiltersFromStorage_def RecipeFilterManager_def
      recipe_loadFiltersFromStorage_def example_listing_def example_parse_def
      filters_load_parsed criteria_ok_def tag_array_def)

text \<open>
  C7, amended. That both fields are arrays and neither holds a tag twice is kept by the
  click on a tag or base-model element, by \<^verbatim>\<open>applyFilters\<close> and by
  \<^verbatim>\<open>loadFiltersFromStorage\<close> when each stored field is missing, falsy or such an array (or
  nothing usable is stored). It is established by \<^verbatim>\<open>clearFilters\<close>; by the constructor of
  the RecipeFilterManager under that condition on storage; and by the constructor of the
  FilterManager under that condition on storage when the filters of the page state, if it
  has any, are of that shape. A click that activates an element whose tag is already in
  the field leaves the field as it is.
\<close>

theorem criteria_ok_maintained:
  "(criteria_ok (filters s) \<longrightarrow>
      criteria_ok (filters (state_of (tag_click stringify num_str str_num i s))) \<and>
      criteria_ok (filters (state_of (base_model_click stringify num_str str_num i s))) \<and>
      criteria_ok (filters (state_of (applyFilters stringify num_str str_num b s))) \<and>
      criteria_ok (filters (state_of (recipe_tag_click stringify num_str str_num i s))) \<and>
      criteria_ok (filters (state_of (recipe_base_model_click stringify num_str str_num i s))) \<and>
      criteria_ok (filters (state_of (recipe_applyFilters stringify num_str str_num b s)))) \<and>
   criteria_ok (filters (state_of (clearFilters num_str str_num s))) \<and>
   criteria_ok (filters (state_of (recipe_clearFilters num_str str_num s))) \<and>
   (criteria_ok (filters s) \<and> stored_ok parse (localStorage s (currentPage s @ ''_filters'')) \<longrightarrow>
      criteria_ok (filters (loadFiltersFromStorage parse num_str str_num s))) \<and>
   (criteria_ok (filters s) \<and> stored_ok parse (localStorage s ''recipeFilters'') \<longrightarrow>
      criteria_ok (filters (recipe_loadFiltersFromStorage parse num_str str_num s))) \<and>
   ((case page_filters s of None \<Rightarrow> True | Some f \<Rightarrow> criteria_ok f) \<and>
    stored_ok parse
      (localStorage s (or_string options_page (or_string body_page ''loras'') @ ''_filters'')) \<longrightarrow>
      criteria_ok (filters (FilterManager parse num_str str_num options_page body_page s))) \<and>
   (stored_ok parse (localStorage s ''recipeFilters'') \<longrightarrow>
      criteria_ok (filters (RecipeFilterManager parse num_str str_num s))) \<and>
   (i < length (tag_filters s) \<and> \<not> active (tag_filters s ! i) \<and> tags (filters s) = JArr xs \<and>
    JStr (tag_name (tag_filters s ! i)) \<in> set xs \<longrightarrow>
      tags (filters (state_of (tag_click stringify num_str str_num i s))) = JArr xs)"
proof -
  have dup: "i < length (tag_filters s) \<Longrightarrow> \<not> active (tag_filters s ! i) \<Longrightarrow>
    tags (filters s) = JArr xs \<Longrightarrow> JStr (tag_name (tag_filters s ! i)) \<in> set xs \<Longrightarrow>
      tags (filters (state_of (tag_click stringify num_str str_num i s))) = JArr xs"
  proof -
    assume a: "i < length (tag_filters s)" "\<not> active (tag_filters s ! i)"
      "tags (filters s) = JArr xs" "JStr (tag_name (tag_filters s ! i)) \<in> set xs"
    have "toggle_in_field (\<not> active (tag_filters s ! i)) (tags (filters s))
        (tag_name (tag_filters s ! i)) = Inr (JArr xs)"
      using a by (simp add: toggle_in_field_def)
    from filters_tag_click [OF a(1) this, of stringify num_str str_num]
    show ?thesis by simp
  qed
  have fm: "(case page_filters s of None \<Rightarrow> True | Some f \<Rightarrow> criteria_ok f) \<Longrightarrow>
    stored_ok parse
      (localStorage s (or_string options_page (or_string body_page ''loras'') @ ''_filters'')) \<Longrightarrow>
      criteria_ok (filters (FilterManager parse num_str str_num options_page body_page s))"
    unfolding FilterManager_def
    by (rule loadFiltersFromStorage_ok) (simp_all split: option.splits)
  have rm: "stored_ok parse (localStorage s ''recipeFilters'') \<Longrightarrow>
      criteria_ok (filters (RecipeFilterManager parse num_str str_num s))"
    unfolding RecipeFilterManager_def
    by (rule recipe_loadFiltersFromStorage_ok) simp_all
  show ?thesis
    using fm rm dup
    by (simp add: tag_click_ok base_model_click_ok recipe_tag_click_ok recipe_base_model_click_ok
        loadFiltersFromStorage_ok recipe_loadFiltersFromStorage_ok)
qed

theorem criteria_ok_maintained_witness:
  \<open>criteria_ok (filters (example_listing Map.empty)) \<and>
   criteria_ok (filters (state_of (tag_click example_stringify example_num_str example_str_num 0
     (example_listing Map.empty)))) \<and>
   stored_ok example_parse (Some ''{"baseModel":[],"tags":["sci-fi"]}'') \<and>
   criteria_ok (filters (FilterManager example_parse example_num_str example_str_num None None
     (example_listing [''loras_filters'' \<mapsto> ''{"baseModel":[],"tags":["sci-fi"]}'']))) \<and>
   criteria_ok (filters (RecipeFilterManager example_parse example_num_str example_str_num
     (example_listing [''recipeFilters'' \<mapsto> ''{"baseModel":[],"tags":["sci-fi"]}'']))) \<and>
   tags (filters (state_of (tag_click example_stringify example_num_str example_str_num 0
     ((example_listing Map.empty)
        \<lparr>filters := \<lparr>baseModel = JArr [], tags = JArr [JStr ''sci-fi'']\<rparr>\<rparr>)))) =
     JArr [JStr ''sci-fi'']\<close>
  using criteria_ok_maintained [where s = "example_listing Map.empty" and i = 0
      and stringify = example_stringify and num_str = example_num_str
      and str_num = example_str_num]
    criteria_ok_maintained [where parse = example_parse and options_page = None
      and body_page = None and num_str = example_num_str and str_num = example_str_num
      and s = \<open>example_listing [''loras_filters'' \<mapsto> ''{"baseModel":[],"tags":["sci-fi"]}'']\<close>]
    criteria_ok_maintained [where parse = example_parse
      and num_str = example_num_str and str_num = example_str_num
      and s = \<open>example_listing [''recipeFilters'' \<mapsto> ''{"baseModel":[],"tags":["sci-fi"]}'']\<close>]
    criteria_ok_maintained [where i = 0 and stringify = example_stringify
      and num_str = example_num_str and str_num = example_str_num
      and xs = "[JStr ''sci-fi'']"
      and s = "(example_listing Map.empty)
        \<lparr>filters := \<lparr>baseModel = JArr [], tags = JArr [JStr ''sci-fi'']\<rparr>\<rparr>"]
  by (simp add: example_listing_def example_parse_def stored_ok_def field_ok_def
      tag_array_def criteria_ok_def empty_filters_def)


end
